theory Spec2Isabelle
  imports Main "HOL-Library.Word"
begin

unbundle bit_operations_syntax

section \<open>Shared library introspection and patching (nuitka/utils/SharedLibraries.py)\<close>

text \<open>
  Byte strings and text strings of the Python source are both lists of characters here.
  Every exception the source can raise is a value of \<open>error\<close>; a function that can
  raise returns \<open>error + 'a\<close> with \<open>Inl\<close> for the exception.
\<close>

type_synonym bytes = string

datatype error =
    AssertionError
  | ValueError
  | KeyError string
  | IndexError
  | UnicodeDecodeError
  | NuitkaAssumptionError string string nat
  | SysExit string
  | OSError string

subsection \<open>The byte string operations of Python the module uses\<close>

text \<open>\<open>s.startswith(p)\<close>.\<close>

definition startswith :: "string \<Rightarrow> string \<Rightarrow> bool" where
  "startswith s p = (take (length p) s = p)"

text \<open>\<open>s.find(sub)\<close> and \<open>s.rfind(sub)\<close>: the index of the first and of the last
  occurrence, \<open>-1\<close> when there is none. The last argument is the index of the head of
  the list scanned.\<close>

fun find_from :: "string \<Rightarrow> string \<Rightarrow> nat \<Rightarrow> int" where
  "find_from sub [] i = (if sub = [] then int i else -1)"
| "find_from sub (c # cs) i =
     (if startswith (c # cs) sub then int i else find_from sub cs (Suc i))"

fun rfind_from :: "string \<Rightarrow> string \<Rightarrow> nat \<Rightarrow> int" where
  "rfind_from sub [] i = (if sub = [] then int i else -1)"
| "rfind_from sub (c # cs) i =
     (let r = rfind_from sub cs (Suc i)
      in if r \<ge> 0 then r else if startswith (c # cs) sub then int i else -1)"

definition py_find :: "string \<Rightarrow> string \<Rightarrow> int" where
  "py_find s sub = find_from sub s 0"

definition py_rfind :: "string \<Rightarrow> string \<Rightarrow> int" where
  "py_rfind s sub = rfind_from sub s 0"

text \<open>\<open>sub in s\<close>.\<close>

definition py_in :: "string \<Rightarrow> string \<Rightarrow> bool" where
  "py_in sub s = (py_find s sub \<ge> 0)"

text \<open>\<open>s[i:j]\<close>: a negative index counts from the end, and both are clipped to the
  string.\<close>

definition py_slice :: "string \<Rightarrow> int \<Rightarrow> int \<Rightarrow> string" where
  "py_slice s i j =
     (let n = int (length s);
          a = (if i < 0 then max 0 (i + n) else min i n);
          b = (if j < 0 then max 0 (j + n) else min j n)
      in take (nat (b - a)) (drop (nat a) s))"

text \<open>\<open>s.count(sub)\<close>: the occurrences that do not overlap, from the left.\<close>

fun py_count :: "string \<Rightarrow> string \<Rightarrow> nat" where
  "py_count [] sub = (if sub = [] then 1 else 0)"
| "py_count (c # cs) sub =
     (if sub = [] then Suc (py_count cs sub)
      else if startswith (c # cs) sub then Suc (py_count (drop (length sub - 1) cs) sub)
      else py_count cs sub)"

text \<open>\<open>s.split(sep)\<close> for a separator that is not empty; the second argument holds the
  current piece, reversed.\<close>

fun split_acc :: "string \<Rightarrow> string \<Rightarrow> string \<Rightarrow> string list" where
  "split_acc [] cur sep = [rev cur]"
| "split_acc (c # cs) cur sep =
     (if sep \<noteq> [] \<and> startswith (c # cs) sep
      then rev cur # split_acc (drop (length sep - 1) cs) [] sep
      else split_acc cs (c # cur) sep)"

definition py_split :: "string \<Rightarrow> string \<Rightarrow> string list" where
  "py_split s sep = split_acc s [] sep"

text \<open>The ASCII whitespace of \<open>bytes.strip()\<close> and \<open>bytes.split()\<close>: space, tab, line
  feed, carriage return, vertical tab and form feed.\<close>

definition is_space :: "char \<Rightarrow> bool" where
  "is_space c = (c = CHR '' '' \<or> c = CHR 0x09 \<or> c = CHR 0x0A \<or> c = CHR 0x0D
                 \<or> c = CHR 0x0B \<or> c = CHR 0x0C)"

definition py_strip :: "string \<Rightarrow> string" where
  "py_strip s = rev (dropWhile is_space (rev (dropWhile is_space s)))"

text \<open>\<open>s.split()\<close>: the pieces between runs of whitespace, none of them empty.\<close>

fun split_ws_acc :: "string \<Rightarrow> string \<Rightarrow> string list" where
  "split_ws_acc [] cur = (if cur = [] then [] else [rev cur])"
| "split_ws_acc (c # cs) cur =
     (if is_space c
      then (if cur = [] then split_ws_acc cs [] else rev cur # split_ws_acc cs [])
      else split_ws_acc cs (c # cur))"

definition py_split_ws :: "string \<Rightarrow> string list" where
  "py_split_ws s = split_ws_acc s []"

text \<open>\<open>s.splitlines()\<close> on bytes: a line ends at a line feed, a carriage return or a
  carriage return followed by a line feed; there is no empty last line.\<close>

fun splitlines_acc :: "string \<Rightarrow> string \<Rightarrow> string list" where
  "splitlines_acc [] cur = (if cur = [] then [] else [rev cur])"
| "splitlines_acc (c # cs) cur =
     (if c = CHR 0x0A then rev cur # splitlines_acc cs []
      else if c = CHR 0x0D
      then (case cs of
              [] \<Rightarrow> [rev cur]
            | d # ds \<Rightarrow> if d = CHR 0x0A then rev cur # splitlines_acc ds []
                        else rev cur # splitlines_acc (d # ds) [])
      else splitlines_acc cs (c # cur))"

definition py_splitlines :: "string \<Rightarrow> string list" where
  "py_splitlines s = splitlines_acc s []"

text \<open>The two characters that end a line for \<open>splitlines\<close>.\<close>

definition eol :: "char \<Rightarrow> bool" where
  "eol c = (c = CHR 0x0A \<or> c = CHR 0x0D)"

text \<open>\<open>sep.join(xs)\<close>.\<close>

fun py_join :: "string \<Rightarrow> string list \<Rightarrow> string" where
  "py_join sep [] = []"
| "py_join sep [x] = x"
| "py_join sep (x # y # ys) = x @ sep @ py_join sep (y # ys)"

subsection \<open>The host context\<close>

text \<open>
  The queries the module makes about the interpreter and the host: \<open>getOS()\<close>,
  \<open>isWin32Windows()\<close>, \<open>isAlpineLinux()\<close>, \<open>getArchitecture()\<close>,
  \<open>python_version\<close>, \<open>Options.isShowInclusion()\<close>, and the standard library's
  \<open>bytes.decode\<close>, \<open>sys.getdefaultencoding()\<close>, \<open>sys.getfilesystemencoding()\<close>,
  \<open>os.path.basename\<close> and \<open>os.path.normcase\<close>, whose results depend on the host.
\<close>

record host =
  getOS :: string
  isWin32Windows :: bool
  isAlpineLinux :: bool
  getArchitecture :: string
  python_version :: nat
  isShowInclusion :: bool
  decode :: "string \<Rightarrow> bytes \<Rightarrow> error + string"
  getdefaultencoding :: string
  getfilesystemencoding :: string
  os_path_basename :: "string \<Rightarrow> string"
  os_path_normcase :: "string \<Rightarrow> string"

text \<open>\<open>str is not bytes\<close> holds exactly on Python 3.\<close>

definition str_is_not_bytes :: "host \<Rightarrow> bool" where
  "str_is_not_bytes h = (python_version h \<ge> 0x300)"

subsection \<open>getWindowsDLLVersion\<close>

text \<open>
  \<open>VsFixedFileInfoStructure\<close> (declared in nuitka/utils/WindowsResources.py): the three
  fields the function reads, each a \<open>c_uint32\<close>.
\<close>

record VsFixedFileInfoStructure =
  dwSignature :: "32 word"
  dwFileVersionMS :: "32 word"
  dwFileVersionLS :: "32 word"

text \<open>
  The version API of the operating system (\<open>ctypes.windll.version\<close>), as the answers it
  gives for a file: the buffer size of \<open>GetFileVersionInfoSizeW/A\<close>, the success flag
  and loaded buffer of \<open>GetFileVersionInfoW/A\<close>, and the root query \<open>VerQueryValueA\<close>
  on a loaded buffer, which yields the fixed file info or fails (\<open>None\<close>).
  A file name is a \<open>unicode\<close> object or a byte string; the source selects the W or the A
  entry points by that.
\<close>

datatype filename_arg = Unicode string | Bytes bytes

record 'buf version_api =
  GetFileVersionInfoSizeW :: "string \<Rightarrow> nat"
  GetFileVersionInfoSizeA :: "bytes \<Rightarrow> nat"
  GetFileVersionInfoW :: "string \<Rightarrow> nat \<Rightarrow> bool \<times> 'buf"
  GetFileVersionInfoA :: "bytes \<Rightarrow> nat \<Rightarrow> bool \<times> 'buf"
  VerQueryValueA :: "'buf \<Rightarrow> VsFixedFileInfoStructure option"

text \<open>The size query and the load, as the source's branch on the type of the file
  name selects their entry points.\<close>

definition version_size :: "'buf version_api \<Rightarrow> filename_arg \<Rightarrow> nat" where
  "version_size api filename =
     (case filename of Unicode f \<Rightarrow> GetFileVersionInfoSizeW api f
                     | Bytes f \<Rightarrow> GetFileVersionInfoSizeA api f)"

definition version_load :: "'buf version_api \<Rightarrow> filename_arg \<Rightarrow> nat \<Rightarrow> bool \<times> 'buf" where
  "version_load api filename n =
     (case filename of Unicode f \<Rightarrow> GetFileVersionInfoW api f n
                     | Bytes f \<Rightarrow> GetFileVersionInfoA api f n)"

text \<open>The last line of the function: \<open>(ms >> 16) & 0xFFFF, ms & 0xFFFF,
  (ls >> 16) & 0xFFFF, ls & 0xFFFF\<close> on the Python integers read from the two fields.\<close>

definition hi_lo_words :: "32 word \<Rightarrow> 32 word \<Rightarrow> int \<times> int \<times> int \<times> int" where
  "hi_lo_words ms ls =
     ((drop_bit 16 (uint ms)) AND 0xFFFF, (uint ms) AND 0xFFFF,
      (drop_bit 16 (uint ls)) AND 0xFFFF, (uint ls) AND 0xFFFF)"

definition getWindowsDLLVersion ::
  "'buf version_api \<Rightarrow> filename_arg \<Rightarrow> error + (int \<times> int \<times> int \<times> int)" where
  "getWindowsDLLVersion api filename =
     (let size = version_size api filename
      in if size = 0 then Inr (0, 0, 0, 0)
         else
           let (success, res) = version_load api filename size
           in if \<not> success then Inl AssertionError
              else (case VerQueryValueA api res of
                      None \<Rightarrow> Inr (0, 0, 0, 0)
                    | Some file_info \<Rightarrow>
                        if \<not> (dwSignature file_info = 0xFEEF04BD) then Inr (0, 0, 0, 0)
                        else Inr (hi_lo_words (dwFileVersionMS file_info)
                                              (dwFileVersionLS file_info))))"

text \<open>What the function meets on its way for a file: whether the version block was
  loaded, and the answer of the root query on the loaded buffer.\<close>

definition load_succeeds :: "'buf version_api \<Rightarrow> filename_arg \<Rightarrow> bool" where
  "load_succeeds api filename = fst (version_load api filename (version_size api filename))"

definition root_query :: "'buf version_api \<Rightarrow> filename_arg \<Rightarrow> VsFixedFileInfoStructure option" where
  "root_query api filename =
     VerQueryValueA api (snd (version_load api filename (version_size api filename)))"

subsection \<open>getPEFileInformation\<close>

text \<open>
  The \<open>pefile\<close> module is imported at run time (\<open>importFromInlineCopy\<close>); the function
  uses its two optional-header magic constants and its parser \<open>pefile.PE\<close>, which yields
  the parsed file: its \<open>PE_TYPE\<close> and, when the file has an import directory, the list
  \<open>DIRECTORY_ENTRY_IMPORT\<close> of imported modules with their \<open>dll\<close> names as bytes.
\<close>

record pe_file =
  PE_TYPE :: nat
  DIRECTORY_ENTRY_IMPORT :: "bytes list option"

record pefile_module =
  OPTIONAL_HEADER_MAGIC_PE :: nat
  OPTIONAL_HEADER_MAGIC_PE_PLUS :: nat
  PE :: "string \<Rightarrow> error + pe_file"

record extracted =
  DLLs :: "string list"
  AMD64 :: bool

text \<open>The loop \<open>for imported_module in getattr(pe, "DIRECTORY_ENTRY_IMPORT", ())\<close>:
  each name is decoded and appended; a name that does not decode raises.\<close>

fun decode_all :: "host \<Rightarrow> bytes list \<Rightarrow> string list \<Rightarrow> error + string list" where
  "decode_all h [] acc = Inr acc"
| "decode_all h (dll # rest) acc =
     (case decode h (getdefaultencoding h) dll of
        Inl e \<Rightarrow> Inl e
      | Inr s \<Rightarrow> decode_all h rest (acc @ [s]))"

definition pe_type2arch :: "pefile_module \<Rightarrow> nat \<rightharpoonup> bool" where
  "pe_type2arch pefile =
     [OPTIONAL_HEADER_MAGIC_PE pefile \<mapsto> False, OPTIONAL_HEADER_MAGIC_PE_PLUS pefile \<mapsto> True]"

definition arch_warning :: "bool \<Rightarrow> bool \<Rightarrow> string \<Rightarrow> string" where
  "arch_warning python_is_64bit amd64 filename =
     ''Python '' @ (if python_is_64bit then ''32'' else ''64'') @ '' bits with ''
       @ (if amd64 then ''64'' else ''32'') @ '' bits dependencies in '' @ [CHR 0x27]
       @ filename @ [CHR 0x27]"

text \<open>The result is the extracted information together with the warnings handed to
  \<open>postprocessing_logger.warning\<close>.\<close>

definition getPEFileInformation ::
  "host \<Rightarrow> pefile_module \<Rightarrow> string \<Rightarrow> error + (extracted \<times> string list)" where
  "getPEFileInformation h pefile filename =
     (case PE pefile filename of
        Inl e \<Rightarrow> Inl e
      | Inr pe \<Rightarrow>
          (case decode_all h (case DIRECTORY_ENTRY_IMPORT pe of None \<Rightarrow> [] | Some ms \<Rightarrow> ms) [] of
             Inl e \<Rightarrow> Inl e
           | Inr dlls \<Rightarrow>
               (case pe_type2arch pefile (PE_TYPE pe) of
                  None \<Rightarrow> Inl (NuitkaAssumptionError ''Unknown PE file architecture''
                                   filename (PE_TYPE pe))
                | Some amd64 \<Rightarrow>
                    let python_is_64bit = (getArchitecture h = ''x86_64'')
                    in Inr (\<lparr>DLLs = dlls, AMD64 = amd64\<rparr>,
                            if amd64 \<noteq> python_is_64bit
                            then [arch_warning python_is_64bit amd64 filename]
                            else []))))"

subsection \<open>Collaborators\<close>

text \<open>
  The module works through helpers of other modules, whose code is not part of this
  file: \<open>executeToolChecked\<close> (run an external tool, return its standard output or
  fail), \<open>withMadeWritableFileMode\<close> (a scope in which the file is writable), the
  inclusion logger, and the resource functions of nuitka/utils/WindowsResources.py.
  They act on the world outside the program, of type \<open>'w\<close>; a function that uses
  them takes the world and returns it.
\<close>

record 'w env =
  executeToolChecked ::
    "string list \<Rightarrow> string \<Rightarrow> (bytes \<Rightarrow> bytes) option \<Rightarrow> 'w \<Rightarrow> (error + bytes) \<times> 'w"
  withMadeWritableFileMode ::
    "string \<Rightarrow> ('w \<Rightarrow> (error + unit) \<times> 'w) \<Rightarrow> 'w \<Rightarrow> (error + unit) \<times> 'w"
  inclusion_logger_info :: "string \<Rightarrow> 'w \<Rightarrow> 'w"

record ('w, 'r) resources =
  RT_MANIFEST :: nat
  getResourcesFromDLL :: "string \<Rightarrow> nat list \<Rightarrow> bool \<Rightarrow> 'w \<Rightarrow> (error + 'r list) \<times> 'w"
  deleteWindowsResources :: "string \<Rightarrow> nat \<Rightarrow> 'r list \<Rightarrow> 'w \<Rightarrow> (error + unit) \<times> 'w"

text \<open>The loader and file system queries of the standard library that \<open>locateDLL\<close>
  makes: \<open>ctypes.util.find_library\<close>, \<open>ctypes.util._get_soname\<close>, \<open>os.walk\<close> and
  \<open>os.path.normpath\<close>.\<close>

record loader =
  find_library :: "string \<Rightarrow> string option"
  get_soname :: "string \<Rightarrow> string option"
  os_walk :: "string \<Rightarrow> (string \<times> string list \<times> string list) list"
  os_path_normpath :: "string \<Rightarrow> string"

definition quoted :: "string \<Rightarrow> string" where
  "quoted s = [CHR 0x27] @ s @ [CHR 0x27]"

definition ldconfig_usage :: string where
  "ldconfig_usage = ''The '' @ quoted ''ldconfig'' @
     '' is used to analyse dependencies on ELF using systems and required to be found.''"

definition readelf_usage :: string where
  "readelf_usage = ''The '' @ quoted ''readelf'' @
     '' is used to analyse dependencies on ELF using systems and required to be found.''"

definition otool_usage :: string where
  "otool_usage = ''The '' @ quoted ''otool'' @
     '' is used to analyse dependencies on macOS and required to be found.''"

definition installnametool_usage :: string where
  "installnametool_usage = ''The '' @ quoted ''install_name_tool'' @
     '' is used to make binaries portable on macOS and required to be found.''"

definition chrpath_usage :: string where
  "chrpath_usage = ''Error, needs '' @ quoted ''chrpath'' @ '' on your system, due to ''
     @ quoted ''RPATH'' @ '' settings in used shared'' @ [CHR 0x0A]
     @ ''libraries that need to be removed.''"

subsection \<open>locateDLL\<close>

text \<open>\<open>os.path.join\<close> and \<open>os.path.dirname\<close> on the POSIX branch of \<open>locateDLL\<close>
  (posixpath).\<close>

definition posix_join :: "string \<Rightarrow> string \<Rightarrow> string" where
  "posix_join a b =
     (if startswith b ''/'' then b
      else if a = [] \<or> last a = CHR ''/'' then a @ b
      else a @ ''/'' @ b)"

definition posix_dirname :: "string \<Rightarrow> string" where
  "posix_dirname p =
     (let head = py_slice p 0 (py_rfind p ''/'' + 1)
      in if head \<noteq> [] \<and> head \<noteq> replicate (length head) (CHR ''/'')
         then rev (dropWhile (\<lambda>c. c = CHR ''/'') (rev head)) else head)"

text \<open>The inner loop of \<open>locateDLLFromFilesystem\<close> over one \<open>os.walk\<close>, and the outer
  loop over the paths. Falling off the end returns \<open>None\<close>.\<close>

fun walk_find :: "string \<Rightarrow> (string \<times> string list \<times> string list) list \<Rightarrow> string option" where
  "walk_find name [] = None"
| "walk_find name ((root, dirs, files) # rest) =
     (if name \<in> set files then Some (posix_join root name) else walk_find name rest)"

fun locateDLLFromFilesystem :: "loader \<Rightarrow> string \<Rightarrow> string list \<Rightarrow> string option" where
  "locateDLLFromFilesystem ld name [] = None"
| "locateDLLFromFilesystem ld name (path # paths) =
     (case walk_find name (os_walk ld path) of
        Some found \<Rightarrow> Some found
      | None \<Rightarrow> locateDLLFromFilesystem ld name paths)"

text \<open>The body of the loop over the rows of \<open>ldconfig -p\<close>: the two assertions, the
  unpacking of the split into exactly two columns, the cut of the left column at its
  last \<open>" ("\<close> and, on Python 3, the decoding of both columns.\<close>

definition parse_ldconfig_line :: "host \<Rightarrow> bytes \<Rightarrow> error + (string \<times> string)" where
  "parse_ldconfig_line h line =
     (if py_count line ''=>'' \<noteq> 1 then Inl AssertionError
      else (case py_split (py_strip line) '' => '' of
              [left, right] \<Rightarrow>
                if \<not> py_in '' ('' left then Inl AssertionError
                else
                  let left = py_slice left 0 (py_rfind left '' ('')
                  in if python_version h \<ge> 0x300
                     then (case decode h (getfilesystemencoding h) left of
                             Inl e \<Rightarrow> Inl e
                           | Inr l \<Rightarrow>
                               (case decode h (getfilesystemencoding h) right of
                                  Inl e \<Rightarrow> Inl e
                                | Inr r \<Rightarrow> Inr (l, r)))
                     else Inr (left, right)
            | _ \<Rightarrow> Inl ValueError))"

fun build_dll_map ::
  "host \<Rightarrow> bytes list \<Rightarrow> (string \<rightharpoonup> string) \<Rightarrow> error + (string \<rightharpoonup> string)" where
  "build_dll_map h [] dll_map = Inr dll_map"
| "build_dll_map h (line # rest) dll_map =
     (case parse_ldconfig_line h line of
        Inl e \<Rightarrow> Inl e
      | Inr (left, right) \<Rightarrow>
          build_dll_map h rest
            (if dll_map left = None then dll_map(left \<mapsto> right) else dll_map))"

definition locateDLL ::
  "host \<Rightarrow> loader \<Rightarrow> 'w env \<Rightarrow> string \<Rightarrow> 'w \<Rightarrow> (error + string option) \<times> 'w" where
  "locateDLL h ld env dll_name0 w =
     (case find_library ld dll_name0 of
        None \<Rightarrow> (Inr None, w)
      | Some dll_name \<Rightarrow>
          if isWin32Windows h then (Inr (Some (os_path_normpath ld dll_name)), w)
          else if getOS h = ''Darwin'' then (Inr (Some dll_name), w)
          else if py_in ''/'' dll_name then
            (case get_soname ld dll_name of
               Some so_name \<Rightarrow> (Inr (Some (posix_join (posix_dirname dll_name) so_name)), w)
             | None \<Rightarrow> (Inr (Some dll_name), w))
          else if isAlpineLinux h then
            (Inr (locateDLLFromFilesystem ld dll_name [''/lib'', ''/usr/lib'', ''/usr/local/lib'']), w)
          else
            (case executeToolChecked env [''/sbin/ldconfig'', ''-p''] ldconfig_usage None w of
               (Inl e, w') \<Rightarrow> (Inl e, w')
             | (Inr output, w') \<Rightarrow>
                 (case build_dll_map h (drop 1 (py_splitlines output)) Map.empty of
                    Inl e \<Rightarrow> (Inl e, w')
                  | Inr dll_map \<Rightarrow>
                      (case dll_map dll_name of
                         None \<Rightarrow> (Inl (KeyError dll_name), w')
                       | Some path \<Rightarrow> (Inr (Some path), w')))))"

subsection \<open>getSxsFromDLL and removeSxsFromDLL\<close>

definition getSxsFromDLL ::
  "('w, 'r) resources \<Rightarrow> string \<Rightarrow> bool \<Rightarrow> 'w \<Rightarrow> (error + 'r list) \<times> 'w" where
  "getSxsFromDLL rs filename with_data w =
     getResourcesFromDLL rs filename [RT_MANIFEST rs] with_data w"

definition sxs_modules :: "string list" where
  "sxs_modules = [''sip.pyd'', ''win32ui.pyd'', ''winxpgui.pyd'']"

definition removeSxsFromDLL ::
  "host \<Rightarrow> ('w, 'r) resources \<Rightarrow> string \<Rightarrow> 'w \<Rightarrow> (error + unit) \<times> 'w" where
  "removeSxsFromDLL h rs filename w =
     (if os_path_normcase h (os_path_basename h filename) \<notin> set sxs_modules
      then (Inr (), w)
      else (case getSxsFromDLL rs filename False w of
              (Inl e, w') \<Rightarrow> (Inl e, w')
            | (Inr res_names, w') \<Rightarrow>
                if res_names \<noteq> []
                then deleteWindowsResources rs filename (RT_MANIFEST rs) res_names w'
                else (Inr (), w')))"

subsection \<open>getSharedLibraryRPATH\<close>

text \<open>The value taken from a tagged line of \<open>readelf -d\<close>:
  \<open>line[line.find(b"[") + 1 : line.rfind(b"]")]\<close>, decoded on Python 3.\<close>

definition rpath_elf_value :: "host \<Rightarrow> bytes \<Rightarrow> error + string" where
  "rpath_elf_value h line =
     (let result = py_slice line (py_find line ''['' + 1) (py_rfind line '']'')
      in if str_is_not_bytes h then decode h ''utf-8'' result else Inr result)"

definition rpath_tagged :: "bytes \<Rightarrow> bool" where
  "rpath_tagged line = (py_in ''RPATH'' line \<or> py_in ''RUNPATH'' line)"

fun rpath_elf_scan :: "host \<Rightarrow> bytes list \<Rightarrow> error + string option" where
  "rpath_elf_scan h [] = Inr None"
| "rpath_elf_scan h (line # rest) =
     (if rpath_tagged line
      then (case rpath_elf_value h line of Inl e \<Rightarrow> Inl e | Inr result \<Rightarrow> Inr (Some result))
      else rpath_elf_scan h rest)"

definition getSharedLibraryRPATHElf ::
  "host \<Rightarrow> 'w env \<Rightarrow> string \<Rightarrow> 'w \<Rightarrow> (error + string option) \<times> 'w" where
  "getSharedLibraryRPATHElf h env filename w =
     (case executeToolChecked env [''readelf'', ''-d'', filename] readelf_usage None w of
        (Inl e, w') \<Rightarrow> (Inl e, w')
      | (Inr output, w') \<Rightarrow> (rpath_elf_scan h (py_split output [CHR 0x0A]), w'))"

text \<open>The value taken from a \<open>path\<close> line of \<open>otool -l\<close>:
  \<open>line[5 : line.rfind(b"(") - 1]\<close>, decoded on Python 3.\<close>

definition rpath_darwin_value :: "host \<Rightarrow> bytes \<Rightarrow> error + string" where
  "rpath_darwin_value h line =
     (let result = py_slice line 5 (py_rfind line ''('' - 1)
      in if str_is_not_bytes h then decode h ''utf-8'' result else Inr result)"

text \<open>\<open>line.split()[1]\<close>.\<close>

definition second_word :: "bytes \<Rightarrow> error + bytes" where
  "second_word line = (case py_split_ws line of a # b # rest \<Rightarrow> Inr b | _ \<Rightarrow> Inl IndexError)"

text \<open>A line that sets \<open>cmd\<close> to \<open>LC_RPATH\<close> when it follows a load command header:
  stripped, it starts with \<open>cmd\<close> and a space and its second word is \<open>LC_RPATH\<close>.\<close>

definition names_rpath_command :: "bytes \<Rightarrow> bool" where
  "names_rpath_command raw =
     (startswith (py_strip raw) ''cmd '' \<and> second_word (py_strip raw) = Inr ''LC_RPATH'')"

text \<open>The loop over the lines of \<open>otool -l\<close>, with its two variables \<open>cmd\<close> and
  \<open>last_was_load_command\<close>.\<close>

fun rpath_darwin_scan :: "host \<Rightarrow> bytes \<Rightarrow> bool \<Rightarrow> bytes list \<Rightarrow> error + string option" where
  "rpath_darwin_scan h cmd last_was_load_command [] = Inr None"
| "rpath_darwin_scan h cmd last_was_load_command (raw # rest) =
     (let line = py_strip raw
      in if cmd = ''LC_RPATH'' \<and> startswith line ''path ''
         then (case rpath_darwin_value h line of
                 Inl e \<Rightarrow> Inl e | Inr result \<Rightarrow> Inr (Some result))
         else if last_was_load_command \<and> startswith line ''cmd ''
         then (case second_word line of
                 Inl e \<Rightarrow> Inl e
               | Inr cmd' \<Rightarrow> rpath_darwin_scan h cmd' (startswith line ''Load command'') rest)
         else rpath_darwin_scan h cmd (startswith line ''Load command'') rest)"

definition getSharedLibraryRPATHDarwin ::
  "host \<Rightarrow> 'w env \<Rightarrow> string \<Rightarrow> 'w \<Rightarrow> (error + string option) \<times> 'w" where
  "getSharedLibraryRPATHDarwin h env filename w =
     (case executeToolChecked env [''otool'', ''-l'', filename] otool_usage None w of
        (Inl e, w') \<Rightarrow> (Inl e, w')
      | (Inr output, w') \<Rightarrow> (rpath_darwin_scan h [] False (py_split output [CHR 0x0A]), w'))"

definition getSharedLibraryRPATH ::
  "host \<Rightarrow> 'w env \<Rightarrow> string \<Rightarrow> 'w \<Rightarrow> (error + string option) \<times> 'w" where
  "getSharedLibraryRPATH h env filename w =
     (if getOS h = ''Darwin'' then getSharedLibraryRPATHDarwin h env filename w
      else getSharedLibraryRPATHElf h env filename w)"

subsection \<open>removeSharedLibraryRPATH\<close>

definition discard :: "(error + bytes) \<times> 'w \<Rightarrow> (error + unit) \<times> 'w" where
  "discard r = (case r of (Inl e, w) \<Rightarrow> (Inl e, w) | (Inr out, w) \<Rightarrow> (Inr (), w))"

definition removeSharedLibraryRPATHElf :: "'w env \<Rightarrow> string \<Rightarrow> 'w \<Rightarrow> (error + unit) \<times> 'w" where
  "removeSharedLibraryRPATHElf env filename w =
     discard (executeToolChecked env [''chrpath'', ''-d'', filename] chrpath_usage None w)"

definition benign_warning :: bytes where
  "benign_warning = ''invalidate the code signature''"

definition filterInstallNameToolErrorOutput :: "bytes \<Rightarrow> bytes" where
  "filterInstallNameToolErrorOutput stderr =
     py_join [CHR 0x0A]
       (filter (\<lambda>line. line \<noteq> [] \<and> \<not> py_in benign_warning line) (py_splitlines stderr))"

definition removeSharedLibraryRPATHDarwin ::
  "'w env \<Rightarrow> string \<Rightarrow> string \<Rightarrow> 'w \<Rightarrow> (error + unit) \<times> 'w" where
  "removeSharedLibraryRPATHDarwin env filename rpath w =
     discard (executeToolChecked env [''install_name_tool'', ''-delete_rpath'', rpath, filename]
                installnametool_usage (Some filterInstallNameToolErrorOutput) w)"

definition removing_message :: "string \<Rightarrow> string \<Rightarrow> string" where
  "removing_message rpath filename =
     ''Removing '' @ quoted ''RPATH'' @ '' setting '' @ quoted rpath @ '' from ''
       @ quoted filename @ ''.''"

definition removeSharedLibraryRPATH ::
  "host \<Rightarrow> 'w env \<Rightarrow> string \<Rightarrow> 'w \<Rightarrow> (error + unit) \<times> 'w" where
  "removeSharedLibraryRPATH h env filename w =
     (case getSharedLibraryRPATH h env filename w of
        (Inl e, w1) \<Rightarrow> (Inl e, w1)
      | (Inr None, w1) \<Rightarrow> (Inr (), w1)
      | (Inr (Some rpath), w1) \<Rightarrow>
          let w2 = (if isShowInclusion h
                    then inclusion_logger_info env (removing_message rpath filename) w1
                    else w1)
          in withMadeWritableFileMode env filename
               (\<lambda>w. if getOS h = ''Darwin''
                    then removeSharedLibraryRPATHDarwin env filename rpath w
                    else removeSharedLibraryRPATHElf env filename w)
               w2)"

subsection \<open>A world of files and tools\<close>

text \<open>
  A concrete world: the contents of the files on disk, which files are writable, the
  commands run so far and the messages logged. An external tool is given by what a
  command does to the files and what it prints; \<open>None\<close> means that the tool is not
  installed.
\<close>

record world =
  files :: "string \<rightharpoonup> bytes"
  writable :: "string \<Rightarrow> bool"
  invoked :: "string list list"
  messages :: "string list"

record process =
  exit_code :: int
  stdout :: bytes
  stderr :: bytes
  files_after :: "string \<rightharpoonup> bytes"

type_synonym tools = "string list \<Rightarrow> (string \<rightharpoonup> bytes) \<Rightarrow> process option"

text \<open>Modelled from the spec: \<open>executeToolChecked\<close> of nuitka/utils/Execution.py, which is
  not among the sources. A missing tool is a fatal error reported with the fixed
  absence message. Otherwise the tool runs to its end with its output captured; a
  non-zero exit is a hard failure; the standard error is passed through the filter where
  one is given, and content that remains is a failure as well; else the standard output
  is returned.
\<close>

definition executeToolChecked_model ::
  "tools \<Rightarrow> string list \<Rightarrow> string \<Rightarrow> (bytes \<Rightarrow> bytes) option \<Rightarrow> world
     \<Rightarrow> (error + bytes) \<times> world" where
  "executeToolChecked_model tools command absence_message stderr_filter w =
     (case tools command (files w) of
        None \<Rightarrow> (Inl (SysExit absence_message), w)
      | Some p \<Rightarrow>
          let w' = w\<lparr>files := files_after p, invoked := invoked w @ [command]\<rparr>;
              err = (case stderr_filter of None \<Rightarrow> stderr p | Some f \<Rightarrow> f (stderr p))
          in if exit_code p \<noteq> 0 then (Inl (SysExit ''Error, call failed''), w')
             else if err \<noteq> [] then (Inl (SysExit ''Error, call gave warnings''), w')
             else (Inr (stdout p), w'))"

text \<open>Modelled from the spec: \<open>withMadeWritableFileMode\<close> of
  nuitka/utils/FileOperations.py, which is not among the sources. The file is writable
  for the duration of the body, and its original permission is restored afterwards
  whether the body succeeded or failed.
\<close>

definition withMadeWritableFileMode_model ::
  "string \<Rightarrow> (world \<Rightarrow> (error + unit) \<times> world) \<Rightarrow> world \<Rightarrow> (error + unit) \<times> world" where
  "withMadeWritableFileMode_model filename body w =
     (let old = writable w filename;
          (r, w') = body (w\<lparr>writable := (writable w)(filename := True)\<rparr>)
      in (r, w'\<lparr>writable := (writable w')(filename := old)\<rparr>))"

definition std_env :: "tools \<Rightarrow> world env" where
  "std_env tools =
     \<lparr>executeToolChecked = executeToolChecked_model tools,
      withMadeWritableFileMode = withMadeWritableFileMode_model,
      inclusion_logger_info = (\<lambda>m w. w\<lparr>messages := messages w @ [m]\<rparr>)\<rparr>"

text \<open>The command with which \<open>getSharedLibraryRPATH\<close> looks the RPATH up on a host.\<close>

definition rpath_lookup_command :: "host \<Rightarrow> string \<Rightarrow> string list" where
  "rpath_lookup_command h filename =
     (if getOS h = ''Darwin'' then [''otool'', ''-l'', filename]
      else [''readelf'', ''-d'', filename])"

section \<open>Example inputs\<close>

text \<open>Concrete hosts, files and tool outputs at which the theorems below are evaluated.\<close>

definition ascii_decode :: "string \<Rightarrow> bytes \<Rightarrow> error + string" where
  "ascii_decode encoding b =
     (if list_all (\<lambda>c. (of_char c :: nat) < 128) b then Inr b else Inl UnicodeDecodeError)"

definition crafted_api ::
  "nat \<Rightarrow> bool \<Rightarrow> VsFixedFileInfoStructure option \<Rightarrow> unit version_api" where
  "crafted_api n ok info =
     \<lparr>GetFileVersionInfoSizeW = (\<lambda>f. n), GetFileVersionInfoSizeA = (\<lambda>f. n),
      GetFileVersionInfoW = (\<lambda>f n. (ok, ())), GetFileVersionInfoA = (\<lambda>f n. (ok, ())),
      VerQueryValueA = (\<lambda>buf. info)\<rparr>"

definition crafted_info :: "32 word \<Rightarrow> VsFixedFileInfoStructure" where
  "crafted_info signature =
     \<lparr>dwSignature = signature, dwFileVersionMS = 0x00010002, dwFileVersionLS = 0x00030004\<rparr>"

definition windows_host :: host where
  "windows_host =
     \<lparr>getOS = ''Windows'', isWin32Windows = True, isAlpineLinux = False,
      getArchitecture = ''x86_64'', python_version = 0x390, isShowInclusion = False,
      decode = ascii_decode, getdefaultencoding = ''utf-8'',
      getfilesystemencoding = ''utf-8'',
      os_path_basename = (\<lambda>p. rev (takeWhile (\<lambda>c. c \<noteq> CHR ''/'' \<and> c \<noteq> CHR 0x5C) (rev p))),
      os_path_normcase = map (\<lambda>c. if c = CHR ''/'' then CHR 0x5C
                                    else if (65::nat) \<le> of_char c \<and> (of_char c :: nat) \<le> 90
                                    then char_of (of_char c + (32::nat)) else c)\<rparr>"

definition crafted_pefile :: "nat \<Rightarrow> bytes list option \<Rightarrow> pefile_module" where
  "crafted_pefile magic imports =
     \<lparr>OPTIONAL_HEADER_MAGIC_PE = 0x10b, OPTIONAL_HEADER_MAGIC_PE_PLUS = 0x20b,
      PE = (\<lambda>f. Inr \<lparr>PE_TYPE = magic, DIRECTORY_ENTRY_IMPORT = imports\<rparr>)\<rparr>"

definition world0 :: world where
  "world0 = \<lparr>files = Map.empty, writable = (\<lambda>f. False), invoked = [], messages = []\<rparr>"

text \<open>A tool that succeeds, prints \<open>out\<close> on its standard output and \<open>err\<close> on its
  standard error, and leaves the files alone.\<close>

definition printing_tool :: "bytes \<Rightarrow> bytes \<Rightarrow> tools" where
  "printing_tool out err =
     (\<lambda>command fs. Some \<lparr>exit_code = 0, stdout = out, stderr = err, files_after = fs\<rparr>)"

definition install_name_tool_warning :: bytes where
  "install_name_tool_warning =
     ''install_name_tool: warning: changes being made to the file will invalidate the code signature in: a.dylib''"

definition posix_host :: "string \<Rightarrow> bool \<Rightarrow> host" where
  "posix_host os alpine =
     \<lparr>getOS = os, isWin32Windows = False, isAlpineLinux = alpine,
      getArchitecture = ''x86_64'', python_version = 0x390, isShowInclusion = True,
      decode = ascii_decode, getdefaultencoding = ''utf-8'',
      getfilesystemencoding = ''utf-8'',
      os_path_basename = (\<lambda>p. rev (takeWhile (\<lambda>c. c \<noteq> CHR ''/'') (rev p))),
      os_path_normcase = (\<lambda>p. p)\<rparr>"

text \<open>Each line followed by a line feed, as a tool prints them.\<close>

definition unlines :: "bytes list \<Rightarrow> bytes" where
  "unlines ls = concat (map (\<lambda>l. l @ [CHR 0x0A]) ls)"

definition readelf_with_runpath :: bytes where
  "readelf_with_runpath = unlines
     [''Dynamic section at offset 0x2d90 contains 27 entries:'',
      ''  Tag        Type      Name/Value'',
      '' 0x0000000000000001 (NEEDED)  Shared library: [libc.so.6]'',
      '' 0x000000000000001d (RUNPATH) Library runpath: [$ORIGIN/../lib]'',
      '' 0x000000000000000f (RPATH)   Library rpath: [/opt/lib]'',
      '' 0x000000000000000c (INIT)    0x1000'']"

definition readelf_without_rpath :: bytes where
  "readelf_without_rpath = unlines
     [''Dynamic section at offset 0x2d90 contains 27 entries:'',
      ''  Tag        Type      Name/Value'',
      '' 0x0000000000000001 (NEEDED)  Shared library: [libc.so.6]'',
      '' 0x000000000000000c (INIT)    0x1000'']"

definition otool_with_rpath :: bytes where
  "otool_with_rpath = unlines
     [''a.dylib:'',
      ''Load command 11'',
      ''          cmd LC_LOAD_DYLIB'',
      ''      cmdsize 56'',
      ''         name /usr/lib/libSystem.B.dylib (offset 24)'',
      ''Load command 12'',
      ''          cmd LC_RPATH'',
      ''      cmdsize 32'',
      ''         path @loader_path/../lib (offset 12)'',
      ''Load command 13'',
      ''      cmd LC_FUNCTION_STARTS'']"

definition otool_without_rpath :: bytes where
  "otool_without_rpath = unlines
     [''a.dylib:'',
      ''Load command 11'',
      ''          cmd LC_LOAD_DYLIB'',
      ''      cmdsize 56'',
      ''         name /usr/lib/libSystem.B.dylib (offset 24)'',
      ''         path of no command (offset 0)'']"

definition ldconfig_output :: bytes where
  "ldconfig_output = unlines
     [''3 libs found in cache `/etc/ld.so.cache'' @ [CHR 0x27],
      [CHR 0x09] @ ''libz.so.1 (libc6,x86-64) => /lib/x86_64-linux-gnu/libz.so.1'',
      [CHR 0x09] @ ''libz.so.1 (libc6) => /lib32/libz.so.1'',
      [CHR 0x09] @ ''libm.so.6 (libc6,x86-64) => /lib/x86_64-linux-gnu/libm.so.6'']"

text \<open>A world of resource entries (file, kind, name) and resource functions that
  list and delete them.\<close>

definition listed_resources ::
  "((string \<times> nat \<times> nat) list, nat) resources" where
  "listed_resources =
     \<lparr>RT_MANIFEST = 24,
      getResourcesFromDLL = (\<lambda>f kinds with_data w.
        (Inr (map (\<lambda>(g, k, n). n) (filter (\<lambda>(g, k, n). g = f \<and> k \<in> set kinds) w)), w)),
      deleteWindowsResources = (\<lambda>f kind names w.
        (Inr (), filter (\<lambda>(g, k, n). \<not> (g = f \<and> k = kind \<and> n \<in> set names)) w))\<rparr>"

text \<open>A loader that resolves no name, and one that resolves every name to itself on
  a file system without libraries.\<close>

definition no_loader :: loader where
  "no_loader =
     \<lparr>find_library = (\<lambda>name. None), get_soname = (\<lambda>path. None),
      os_walk = (\<lambda>path. []), os_path_normpath = (\<lambda>path. path)\<rparr>"

definition bare_loader :: loader where
  "bare_loader =
     \<lparr>find_library = (\<lambda>name. Some name), get_soname = (\<lambda>path. None),
      os_walk = (\<lambda>path. [(path, [''firmware''], [''libc.musl-x86_64.so.1''])]),
      os_path_normpath = (\<lambda>path. path)\<rparr>"

definition no_tools :: tools where
  "no_tools = (\<lambda>command fs. None)"

definition ldconfig_output_unspaced :: bytes where
  "ldconfig_output_unspaced = unlines
     [''1 libs found in cache `/etc/ld.so.cache'' @ [CHR 0x27],
      [CHR 0x09] @ ''libz.so.1 (libc6)=>/lib/libz.so.1'']"

definition ldconfig_output_unflagged :: bytes where
  "ldconfig_output_unflagged = unlines
     [''2 libs found in cache `/etc/ld.so.cache'' @ [CHR 0x27],
      [CHR 0x09] @ ''libm.so.6 (libc6,x86-64) => /lib/x86_64-linux-gnu/libm.so.6'',
      [CHR 0x09] @ ''libz.so.1 => /lib/libz.so.1'']"

section \<open>Theorems\<close>



subsection \<open>getWindowsDLLVersion\<close>

lemma and_FFFF: "(x::int) AND 0xFFFF = x mod 65536"
proof -
  have "(0xFFFF::int) = mask 16" by (simp add: mask_eq_exp_minus_1)
  then have "x AND 0xFFFF = take_bit 16 x" by (simp only: take_bit_eq_mask)
  then show ?thesis by (simp add: take_bit_eq_mod)
qed

lemma hi_lo_words_split:
  "hi_lo_words ms ls =
     (uint ms div 65536, uint ms mod 65536, uint ls div 65536, uint ls mod 65536)"
proof -
  have b: "uint w div 65536 mod 65536 = uint w div 65536" for w :: "32 word"
  proof -
    have "uint w < 2 ^ 32" using uint_lt2p [of w] by simp
    then have "uint w div 65536 < 65536" by simp
    moreover have "0 \<le> uint w div 65536"
      using uint_ge_0 [of w] by (simp add: pos_imp_zdiv_nonneg_iff)
    ultimately show ?thesis by simp
  qed
  show ?thesis
    by (simp add: hi_lo_words_def and_FFFF drop_bit_eq_div b)
qed

text \<open>
  Claim C2. For a file whose version block loads and whose fixed file info has the
  signature 0xFEEF04BD, getWindowsDLLVersion returns the high and the low 16-bit word
  of dwFileVersionMS followed by the high and the low 16-bit word of dwFileVersionLS;
  for dwFileVersionMS 0x00010002 and dwFileVersionLS 0x00030004 that is (1, 2, 3, 4).
  It returns (0, 0, 0, 0) without raising when the size query yields zero, when the
  root query on the loaded block fails, and when the signature of the fixed file info
  differs from 0xFEEF04BD. (The root query and the signature test are reached only
  after the load; the source asserts that the load succeeded.)
\<close>

theorem getWindowsDLLVersion_quad:
  "(version_size api f \<noteq> 0 \<and> load_succeeds api f \<and> root_query api f = Some info
      \<and> dwSignature info = 0xFEEF04BD
      \<longrightarrow> getWindowsDLLVersion api f =
            Inr (uint (dwFileVersionMS info) div 65536, uint (dwFileVersionMS info) mod 65536,
                 uint (dwFileVersionLS info) div 65536, uint (dwFileVersionLS info) mod 65536))
   \<and> (version_size api f \<noteq> 0 \<and> load_succeeds api f \<and> root_query api f = Some info
      \<and> dwSignature info = 0xFEEF04BD \<and> dwFileVersionMS info = 0x00010002
      \<and> dwFileVersionLS info = 0x00030004
      \<longrightarrow> getWindowsDLLVersion api f = Inr (1, 2, 3, 4))
   \<and> (version_size api f = 0 \<longrightarrow> getWindowsDLLVersion api f = Inr (0, 0, 0, 0))
   \<and> (version_size api f \<noteq> 0 \<and> load_succeeds api f \<and> root_query api f = None
      \<longrightarrow> getWindowsDLLVersion api f = Inr (0, 0, 0, 0))
   \<and> (version_size api f \<noteq> 0 \<and> load_succeeds api f \<and> root_query api f = Some info
      \<and> dwSignature info \<noteq> 0xFEEF04BD
      \<longrightarrow> getWindowsDLLVersion api f = Inr (0, 0, 0, 0))"
proof -
  have general: "getWindowsDLLVersion api f =
      Inr (uint (dwFileVersionMS info) div 65536, uint (dwFileVersionMS info) mod 65536,
           uint (dwFileVersionLS info) div 65536, uint (dwFileVersionLS info) mod 65536)"
    if "version_size api f \<noteq> 0" "load_succeeds api f" "root_query api f = Some info"
      "dwSignature info = 0xFEEF04BD"
    using that
    by (auto simp: getWindowsDLLVersion_def load_succeeds_def root_query_def Let_def
          hi_lo_words_split split: prod.splits)
  have vector: "getWindowsDLLVersion api f = Inr (1, 2, 3, 4)"
    if "version_size api f \<noteq> 0" "load_succeeds api f" "root_query api f = Some info"
      "dwSignature info = 0xFEEF04BD" "dwFileVersionMS info = 0x00010002"
      "dwFileVersionLS info = 0x00030004"
    using general [OF that(1-4)] that(5,6) by simp
  have zeros: "(version_size api f = 0 \<longrightarrow> getWindowsDLLVersion api f = Inr (0, 0, 0, 0))
   \<and> (version_size api f \<noteq> 0 \<and> load_succeeds api f \<and> root_query api f = None
      \<longrightarrow> getWindowsDLLVersion api f = Inr (0, 0, 0, 0))
   \<and> (version_size api f \<noteq> 0 \<and> load_succeeds api f \<and> root_query api f = Some info
      \<and> dwSignature info \<noteq> 0xFEEF04BD
      \<longrightarrow> getWindowsDLLVersion api f = Inr (0, 0, 0, 0))"
    by (auto simp: getWindowsDLLVersion_def load_succeeds_def root_query_def Let_def
          split: prod.splits)
  from general vector zeros show ?thesis by blast
qed

theorem getWindowsDLLVersion_quad_witness:
  "getWindowsDLLVersion (crafted_api 52 True (Some (crafted_info 0xFEEF04BD)))
       (Unicode ''python39.dll'') = Inr (1, 2, 3, 4)
   \<and> getWindowsDLLVersion
         (crafted_api 52 True
            (Some \<lparr>dwSignature = 0xFEEF04BD, dwFileVersionMS = 0x0003FFFF,
                   dwFileVersionLS = 0x0D051770\<rparr>))
         (Bytes ''python27.dll'') = Inr (3, 65535, 3333, 6000)
   \<and> getWindowsDLLVersion (crafted_api 0 True (Some (crafted_info 0xFEEF04BD)))
       (Unicode ''python39.dll'') = Inr (0, 0, 0, 0)
   \<and> getWindowsDLLVersion (crafted_api 52 True None) (Bytes ''python27.dll'')
       = Inr (0, 0, 0, 0)
   \<and> getWindowsDLLVersion (crafted_api 52 True (Some (crafted_info 0xFEEF04BE)))
       (Unicode ''python39.dll'') = Inr (0, 0, 0, 0)"
  using
    getWindowsDLLVersion_quad [of "crafted_api 52 True (Some (crafted_info 0xFEEF04BD))"
      "Unicode ''python39.dll''" "crafted_info 0xFEEF04BD"]
    getWindowsDLLVersion_quad [of
      "crafted_api 52 True
         (Some \<lparr>dwSignature = 0xFEEF04BD, dwFileVersionMS = 0x0003FFFF,
                dwFileVersionLS = 0x0D051770\<rparr>)"
      "Bytes ''python27.dll''"
      "\<lparr>dwSignature = 0xFEEF04BD, dwFileVersionMS = 0x0003FFFF,
        dwFileVersionLS = 0x0D051770\<rparr>"]
    getWindowsDLLVersion_quad [of "crafted_api 0 True (Some (crafted_info 0xFEEF04BD))"
      "Unicode ''python39.dll''" "crafted_info 0xFEEF04BD"]
    getWindowsDLLVersion_quad [of "crafted_api 52 True None" "Bytes ''python27.dll''"
      "crafted_info 0"]
    getWindowsDLLVersion_quad [of "crafted_api 52 True (Some (crafted_info 0xFEEF04BE))"
      "Unicode ''python39.dll''" "crafted_info 0xFEEF04BE"]
  by (simp add: crafted_api_def crafted_info_def version_size_def version_load_def
        load_succeeds_def root_query_def)

subsection \<open>getPEFileInformation\<close>

text \<open>
  Claim C1. For a PE file that parses and whose import names decode, when the two
  recognized magic constants are distinct: if the optional-header magic is
  OPTIONAL_HEADER_MAGIC_PE the function returns the flag AMD64 = False, if it is
  OPTIONAL_HEADER_MAGIC_PE_PLUS it returns AMD64 = True, and for every other magic it
  raises NuitkaAssumptionError and returns no flag. A mismatch with the interpreter's
  architecture only adds a warning.
\<close>

theorem getPEFileInformation_arch:
  assumes "PE pefile filename = Inr pe"
    and "decode_all h (case DIRECTORY_ENTRY_IMPORT pe of None \<Rightarrow> [] | Some ms \<Rightarrow> ms) [] = Inr dlls"
    and "OPTIONAL_HEADER_MAGIC_PE pefile \<noteq> OPTIONAL_HEADER_MAGIC_PE_PLUS pefile"
  shows "(PE_TYPE pe = OPTIONAL_HEADER_MAGIC_PE pefile \<longrightarrow>
            getPEFileInformation h pefile filename =
              Inr (\<lparr>DLLs = dlls, AMD64 = False\<rparr>,
                   if getArchitecture h = ''x86_64''
                   then [arch_warning True False filename] else []))
       \<and> (PE_TYPE pe = OPTIONAL_HEADER_MAGIC_PE_PLUS pefile \<longrightarrow>
            getPEFileInformation h pefile filename =
              Inr (\<lparr>DLLs = dlls, AMD64 = True\<rparr>,
                   if getArchitecture h = ''x86_64''
                   then [] else [arch_warning False True filename]))
       \<and> (PE_TYPE pe \<noteq> OPTIONAL_HEADER_MAGIC_PE pefile
            \<and> PE_TYPE pe \<noteq> OPTIONAL_HEADER_MAGIC_PE_PLUS pefile \<longrightarrow>
            getPEFileInformation h pefile filename =
              Inl (NuitkaAssumptionError ''Unknown PE file architecture'' filename (PE_TYPE pe)))"
  using assms by (auto simp: getPEFileInformation_def pe_type2arch_def Let_def)

theorem getPEFileInformation_arch_witness:
  "getPEFileInformation windows_host (crafted_pefile 0x10b (Some [''KERNEL32.dll'', ''USER32.dll'']))
       ''a.dll''
     = Inr (\<lparr>DLLs = [''KERNEL32.dll'', ''USER32.dll''], AMD64 = False\<rparr>,
            [''Python 32 bits with 32 bits dependencies in '' @ [CHR 0x27] @ ''a.dll'' @ [CHR 0x27]])
   \<and> getPEFileInformation windows_host (crafted_pefile 0x20b None) ''a.dll''
     = Inr (\<lparr>DLLs = [], AMD64 = True\<rparr>, [])
   \<and> getPEFileInformation windows_host (crafted_pefile 0x107 None) ''a.dll''
     = Inl (NuitkaAssumptionError ''Unknown PE file architecture'' ''a.dll'' 0x107)"
  using
    getPEFileInformation_arch [of "crafted_pefile 0x10b (Some [''KERNEL32.dll'', ''USER32.dll''])"
      "''a.dll''" "\<lparr>PE_TYPE = 0x10b, DIRECTORY_ENTRY_IMPORT = Some [''KERNEL32.dll'', ''USER32.dll'']\<rparr>"
      windows_host "[''KERNEL32.dll'', ''USER32.dll'']"]
    getPEFileInformation_arch [of "crafted_pefile 0x20b None" "''a.dll''"
      "\<lparr>PE_TYPE = 0x20b, DIRECTORY_ENTRY_IMPORT = None\<rparr>" windows_host "[]"]
    getPEFileInformation_arch [of "crafted_pefile 0x107 None" "''a.dll''"
      "\<lparr>PE_TYPE = 0x107, DIRECTORY_ENTRY_IMPORT = None\<rparr>" windows_host "[]"]
  by (simp add: crafted_pefile_def windows_host_def ascii_decode_def arch_warning_def)

subsection \<open>Lines of a byte string\<close>

lemma splitlines_acc_plain:
  "\<not> eol c \<Longrightarrow> splitlines_acc (c # cs) cur = splitlines_acc cs (c # cur)"
  by (simp add: eol_def)

lemma splitlines_acc_lf: "splitlines_acc (CHR 0x0A # cs) cur = rev cur # splitlines_acc cs []"
  by simp

lemma splitlines_acc_cr:
  "splitlines_acc (CHR 0x0D # cs) cur =
     rev cur # splitlines_acc (if cs \<noteq> [] \<and> hd cs = CHR 0x0A then tl cs else cs) []"
  by (cases cs) simp_all

lemma splitlines_acc_no_eol:
  "\<forall>c\<in>set cur. \<not> eol c \<Longrightarrow> line \<in> set (splitlines_acc s cur) \<Longrightarrow> \<forall>c\<in>set line. \<not> eol c"
proof (induction "length s" arbitrary: s cur rule: less_induct)
  case less
  show ?case
  proof (cases s)
    case Nil
    with less.prems show ?thesis by (cases "cur = []") simp_all
  next
    case (Cons c cs)
    show ?thesis
    proof (cases "eol c")
      case False
      have "line \<in> set (splitlines_acc cs (c # cur))"
        using less.prems(2) False unfolding Cons by (simp add: splitlines_acc_plain del: splitlines_acc.simps)
      moreover have "\<forall>a\<in>set (c # cur). \<not> eol a" using False less.prems(1) by simp
      moreover have "length cs < length s" using Cons by simp
      ultimately show ?thesis using less.hyps [of cs "c # cur"] by blast
    next
      case True
      define rest where "rest = (if c = CHR 0x0A then cs
        else if cs \<noteq> [] \<and> hd cs = CHR 0x0A then tl cs else cs)"
      have "splitlines_acc (c # cs) cur = rev cur # splitlines_acc rest []"
        using True unfolding rest_def eol_def
        by (auto simp only: splitlines_acc_lf splitlines_acc_cr split: if_splits)
      with less.prems(2) have "line = rev cur \<or> line \<in> set (splitlines_acc rest [])"
        unfolding Cons by (simp del: splitlines_acc.simps)
      moreover have "length rest < length s" using Cons by (auto simp: rest_def)
      ultimately show ?thesis
        using less.hyps [of rest "[]"] less.prems(1) by auto
    qed
  qed
qed

lemma splitlines_acc_prefix:
  "\<forall>c\<in>set x. \<not> eol c \<Longrightarrow> splitlines_acc (x @ rest) cur = splitlines_acc rest (rev x @ cur)"
proof (induction x arbitrary: cur)
  case Nil
  show ?case by simp
next
  case (Cons a x)
  then show ?case by (simp add: splitlines_acc_plain del: splitlines_acc.simps)
qed

lemma splitlines_join:
  "\<forall>x\<in>set xs. x \<noteq> [] \<and> (\<forall>c\<in>set x. \<not> eol c) \<Longrightarrow>
     splitlines_acc (py_join [CHR 0x0A] xs) [] = xs"
proof (induction xs)
  case Nil
  show ?case by simp
next
  case (Cons x xs)
  have x: "x \<noteq> []" "\<forall>c\<in>set x. \<not> eol c" using Cons.prems by simp_all
  show ?case
  proof (cases xs)
    case Nil
    have "splitlines_acc (x @ []) [] = splitlines_acc [] (rev x @ [])"
      using x(2) by (rule splitlines_acc_prefix)
    with x(1) Nil show ?thesis by simp
  next
    case (Cons y ys)
    have "splitlines_acc (x @ CHR 0x0A # py_join [CHR 0x0A] xs) []
        = splitlines_acc (CHR 0x0A # py_join [CHR 0x0A] xs) (rev x @ [])"
      using x(2) by (rule splitlines_acc_prefix)
    also have "\<dots> = x # splitlines_acc (py_join [CHR 0x0A] xs) []"
      by (simp only: splitlines_acc_lf) simp
    also have "\<dots> = x # xs" using Cons.IH Cons.prems by simp
    finally show ?thesis using Cons by simp
  qed
qed

lemma splitlines_filter:
  "py_splitlines (filterInstallNameToolErrorOutput out) =
     filter (\<lambda>line. line \<noteq> [] \<and> \<not> py_in benign_warning line) (py_splitlines out)"
proof -
  have "\<forall>line\<in>set (py_splitlines out). \<forall>c\<in>set line. \<not> eol c"
    using splitlines_acc_no_eol [of "[]" _ out] by (simp add: py_splitlines_def)
  then have "\<forall>x\<in>set (filter (\<lambda>line. line \<noteq> [] \<and> \<not> py_in benign_warning line) (py_splitlines out)).
      x \<noteq> [] \<and> (\<forall>c\<in>set x. \<not> eol c)" by auto
  then show ?thesis
    unfolding filterInstallNameToolErrorOutput_def py_splitlines_def [of "py_join [CHR 0x0A] _"]
    by (rule splitlines_join)
qed

lemma py_join_nonempty:
  "xs \<noteq> [] \<Longrightarrow> \<forall>x\<in>set xs. x \<noteq> [] \<Longrightarrow> py_join sep xs \<noteq> []"
  by (induction sep xs rule: py_join.induct) auto

lemma py_join_empty_iff:
  assumes "\<forall>x\<in>set xs. x \<noteq> []"
  shows "py_join sep xs = [] \<longleftrightarrow> xs = []"
proof
  assume "py_join sep xs = []"
  with py_join_nonempty [of xs sep] assms show "xs = []" by blast
next
  assume "xs = []" then show "py_join sep xs = []" by simp
qed

lemma filter_empty_iff:
  "filterInstallNameToolErrorOutput out = [] \<longleftrightarrow>
     (\<forall>line\<in>set (py_splitlines out). line = [] \<or> py_in benign_warning line)"
proof -
  let ?keep = "\<lambda>line. line \<noteq> [] \<and> \<not> py_in benign_warning line"
  have "\<forall>x\<in>set (filter ?keep (py_splitlines out)). x \<noteq> []" by simp
  then have "py_join [CHR 0x0A] (filter ?keep (py_splitlines out)) = []
      \<longleftrightarrow> filter ?keep (py_splitlines out) = []"
    by (rule py_join_empty_iff)
  also have "\<dots> \<longleftrightarrow> (\<forall>line\<in>set (py_splitlines out). \<not> ?keep line)"
    by (simp only: filter_empty_conv)
  finally show ?thesis
    unfolding filterInstallNameToolErrorOutput_def by blast
qed

subsection \<open>The filter of the standard error of install_name_tool\<close>

text \<open>
  Claim C8, as stated, fails: a line that contains the text "invalidates the code
  signature" is kept by the filter, which looks for "invalidate the code signature".
\<close>

theorem filter_keeps_invalidates_counterexample:
  "py_in ''invalidates the code signature'' ''tool: this invalidates the code signature''
   \<and> filterInstallNameToolErrorOutput ''tool: this invalidates the code signature''
       = ''tool: this invalidates the code signature''"
  by code_simp

text \<open>
  Claim C8, amended. The filtered standard error is the lines of the standard error
  that are not empty and do not contain the text "invalidate the code signature", in
  their order, joined by single line feeds; read back as lines it is exactly those
  lines. It is empty exactly when every line is empty or contains that text; a tool
  that exits with 0 is then not a failure of executeToolChecked, while any other
  remaining content is a failure.
\<close>

theorem filterInstallNameToolErrorOutput_lines:
  "filterInstallNameToolErrorOutput err =
       py_join [CHR 0x0A]
         (filter (\<lambda>line. line \<noteq> [] \<and> \<not> py_in benign_warning line) (py_splitlines err))
   \<and> py_splitlines (filterInstallNameToolErrorOutput err) =
       filter (\<lambda>line. line \<noteq> [] \<and> \<not> py_in benign_warning line) (py_splitlines err)
   \<and> ((filterInstallNameToolErrorOutput err = []) =
        (\<forall>line\<in>set (py_splitlines err). line = [] \<or> py_in benign_warning line))
   \<and> (tools command (files w) = Some p \<and> exit_code p = 0 \<and> stderr p = err \<longrightarrow>
        fst (executeToolChecked_model tools command msg (Some filterInstallNameToolErrorOutput) w)
          = (if \<forall>line\<in>set (py_splitlines err). line = [] \<or> py_in benign_warning line
             then Inr (stdout p) else Inl (SysExit ''Error, call gave warnings'')))"
proof (intro conjI impI)
  show "filterInstallNameToolErrorOutput err =
       py_join [CHR 0x0A]
         (filter (\<lambda>line. line \<noteq> [] \<and> \<not> py_in benign_warning line) (py_splitlines err))"
    by (simp only: filterInstallNameToolErrorOutput_def)
  show "py_splitlines (filterInstallNameToolErrorOutput err) =
       filter (\<lambda>line. line \<noteq> [] \<and> \<not> py_in benign_warning line) (py_splitlines err)"
    by (rule splitlines_filter)
  show "(filterInstallNameToolErrorOutput err = []) =
        (\<forall>line\<in>set (py_splitlines err). line = [] \<or> py_in benign_warning line)"
    by (rule filter_empty_iff)
  assume "tools command (files w) = Some p \<and> exit_code p = 0 \<and> stderr p = err"
  then show "fst (executeToolChecked_model tools command msg (Some filterInstallNameToolErrorOutput) w)
          = (if \<forall>line\<in>set (py_splitlines err). line = [] \<or> py_in benign_warning line
             then Inr (stdout p) else Inl (SysExit ''Error, call gave warnings''))"
    using filter_empty_iff [of err]
    by (simp add: executeToolChecked_model_def Let_def)
qed

theorem filterInstallNameToolErrorOutput_lines_witness:
  "filterInstallNameToolErrorOutput
       (''a'' @ [CHR 0x0A, CHR 0x0A] @ install_name_tool_warning @ [CHR 0x0D, CHR 0x0A]
          @ ''b'' @ [CHR 0x0A])
     = ''a'' @ [CHR 0x0A] @ ''b''
   \<and> py_splitlines (filterInstallNameToolErrorOutput
       (install_name_tool_warning @ [CHR 0x0A, CHR 0x0A] @ ''error: bad'' @ [CHR 0x0A]))
     = [''error: bad'']
   \<and> filterInstallNameToolErrorOutput (install_name_tool_warning @ [CHR 0x0A, CHR 0x0A]) = []
   \<and> fst (executeToolChecked_model
            (printing_tool [] (install_name_tool_warning @ [CHR 0x0A, CHR 0x0A]))
            [''install_name_tool'', ''-delete_rpath'', ''/opt/lib'', ''a.dylib'']
            installnametool_usage (Some filterInstallNameToolErrorOutput) world0) = Inr []
   \<and> fst (executeToolChecked_model (printing_tool [] ''error: bad'')
            [''install_name_tool'', ''-delete_rpath'', ''/opt/lib'', ''a.dylib'']
            installnametool_usage (Some filterInstallNameToolErrorOutput) world0)
       = Inl (SysExit ''Error, call gave warnings'')"
proof -
  let ?cmd = "[''install_name_tool'', ''-delete_rpath'', ''/opt/lib'', ''a.dylib'']"
  let ?benign = "install_name_tool_warning @ [CHR 0x0A, CHR 0x0A]"
  let ?mixed = "''a'' @ [CHR 0x0A, CHR 0x0A] @ install_name_tool_warning @ [CHR 0x0D, CHR 0x0A]
          @ ''b'' @ [CHR 0x0A]"
  let ?p1 = "\<lparr>exit_code = 0, stdout = [], stderr = ?benign, files_after = files world0\<rparr>"
  let ?p2 = "\<lparr>exit_code = 0, stdout = [], stderr = ''error: bad'', files_after = files world0\<rparr>"
  have l0: "py_join [CHR 0x0A]
      (filter (\<lambda>line. line \<noteq> [] \<and> \<not> py_in benign_warning line) (py_splitlines ?mixed))
      = ''a'' @ [CHR 0x0A] @ ''b''"
    by code_simp
  have l1: "filter (\<lambda>line. line \<noteq> [] \<and> \<not> py_in benign_warning line)
      (py_splitlines (?benign @ ''error: bad'' @ [CHR 0x0A])) = [''error: bad'']"
    by code_simp
  have l2: "\<forall>line\<in>set (py_splitlines ?benign). line = [] \<or> py_in benign_warning line"
    by code_simp
  have l3: "\<not> (\<forall>line\<in>set (py_splitlines ''error: bad''). line = [] \<or> py_in benign_warning line)"
    by code_simp
  have t1: "printing_tool [] ?benign ?cmd (files world0) = Some ?p1"
    by (simp add: printing_tool_def)
  have t2: "printing_tool [] ''error: bad'' ?cmd (files world0) = Some ?p2"
    by (simp add: printing_tool_def)
  have w0: "filterInstallNameToolErrorOutput ?mixed = ''a'' @ [CHR 0x0A] @ ''b''"
    using filterInstallNameToolErrorOutput_lines [of ?mixed, THEN conjunct1]
    unfolding l0 .
  have w1: "py_splitlines (filterInstallNameToolErrorOutput
      (?benign @ ''error: bad'' @ [CHR 0x0A])) = [''error: bad'']"
    using filterInstallNameToolErrorOutput_lines [of "?benign @ ''error: bad'' @ [CHR 0x0A]",
        THEN conjunct2, THEN conjunct1]
    unfolding l1 .
  have w2: "filterInstallNameToolErrorOutput ?benign = []"
    using filterInstallNameToolErrorOutput_lines [of ?benign,
        THEN conjunct2, THEN conjunct2, THEN conjunct1] l2
    by (simp only: simp_thms)
  have w3: "fst (executeToolChecked_model (printing_tool [] ?benign) ?cmd
      installnametool_usage (Some filterInstallNameToolErrorOutput) world0) = Inr []"
    using filterInstallNameToolErrorOutput_lines [of ?benign "printing_tool [] ?benign"
        ?cmd world0 ?p1 installnametool_usage,
        THEN conjunct2, THEN conjunct2, THEN conjunct2] t1 l2
    by simp
  have w4: "fst (executeToolChecked_model (printing_tool [] ''error: bad'') ?cmd
      installnametool_usage (Some filterInstallNameToolErrorOutput) world0)
      = Inl (SysExit ''Error, call gave warnings'')"
    using filterInstallNameToolErrorOutput_lines [of "''error: bad''"
        "printing_tool [] ''error: bad''" ?cmd world0 ?p2 installnametool_usage,
        THEN conjunct2, THEN conjunct2, THEN conjunct2] t2 l3
    by simp
  from w0 w1 w2 w3 w4 show ?thesis by (simp only: append_assoc simp_thms)
qed

subsection \<open>getSharedLibraryRPATH on ELF hosts\<close>

lemma startswith_single [simp]: "startswith (c # cs) [x] = (c = x)"
  by (simp add: startswith_def)

lemma find_from_single:
  "x \<notin> set a \<Longrightarrow> find_from [x] (a @ x # r) i = int (i + length a)"
  by (induction a arbitrary: i) auto

lemma rfind_from_absent: "x \<notin> set b \<Longrightarrow> rfind_from [x] b i = -1"
  by (induction b arbitrary: i) (auto simp: Let_def)

lemma rfind_from_single:
  "x \<notin> set b \<Longrightarrow> rfind_from [x] (a @ x # b) i = int (i + length a)"
proof (induction a arbitrary: i)
  case Nil
  then show ?case by (simp add: Let_def rfind_from_absent)
next
  case (Cons c a)
  then show ?case by (simp add: Let_def)
qed

lemma py_slice_middle:
  "py_slice (a @ v @ b) (int (length a)) (int (length a + length v)) = v"
  by (simp add: py_slice_def Let_def)

lemma rpath_elf_value_bracketed:
  assumes "CHR ''['' \<notin> set a" and "CHR '']'' \<notin> set b"
  shows "rpath_elf_value h (a @ ''['' @ v @ '']'' @ b) =
           (if str_is_not_bytes h then decode h ''utf-8'' v else Inr v)"
proof -
  let ?line = "a @ ''['' @ v @ '']'' @ b"
  have f: "py_find ?line ''['' = int (length a)"
    using find_from_single [OF assms(1), of "v @ '']'' @ b" 0] by (simp add: py_find_def)
  have "?line = (a @ ''['' @ v) @ CHR '']'' # b" by simp
  then have "py_rfind ?line '']'' = int (length (a @ ''['' @ v))"
    using rfind_from_single [OF assms(2), of "a @ ''['' @ v" 0] by (simp add: py_rfind_def)
  then have r: "py_rfind ?line '']'' = int (length (a @ ''['') + length v)" by simp
  have "?line = (a @ ''['') @ v @ ('']'' @ b)" by simp
  then have "py_slice ?line (int (length (a @ ''[''))) (int (length (a @ ''['') + length v)) = v"
    using py_slice_middle [of "a @ ''[''" v "'']'' @ b"] by simp
  moreover have "py_find ?line ''['' + 1 = int (length (a @ ''[''))" using f by simp
  ultimately have "py_slice ?line (py_find ?line ''['' + 1) (py_rfind ?line '']'') = v"
    unfolding r by (simp only:)
  then show ?thesis
    unfolding rpath_elf_value_def Let_def by (simp only:)
qed

lemma rpath_elf_scan_first:
  "\<forall>l\<in>set pre. \<not> rpath_tagged l \<Longrightarrow> rpath_tagged line \<Longrightarrow>
     rpath_elf_scan h (pre @ line # post) =
       (case rpath_elf_value h line of Inl e \<Rightarrow> Inl e | Inr result \<Rightarrow> Inr (Some result))"
  by (induction pre) simp_all

lemma rpath_elf_scan_none:
  "\<forall>l\<in>set ls. \<not> rpath_tagged l \<Longrightarrow> rpath_elf_scan h ls = Inr None"
  by (induction ls) simp_all

text \<open>
  Claim C6. On a host that is not Darwin, when readelf ran: if the first line of its
  output that contains RPATH or RUNPATH has a bracketed value, that is, the line is
  \<open>a [ v ] b\<close> with no opening bracket in \<open>a\<close> and no closing bracket in \<open>b\<close>, then
  getSharedLibraryRPATH returns \<open>v\<close>, decoded from UTF-8 on Python 3; if no line
  contains RPATH or RUNPATH, it returns None.
\<close>

theorem getSharedLibraryRPATH_elf:
  assumes "getOS h \<noteq> ''Darwin''"
    and "executeToolChecked env [''readelf'', ''-d'', filename] readelf_usage None w
           = (Inr output, w')"
  shows "(py_split output [CHR 0x0A] = pre @ line # post
            \<and> (\<forall>l\<in>set pre. \<not> rpath_tagged l) \<and> rpath_tagged line
            \<and> line = a @ ''['' @ v @ '']'' @ b \<and> CHR ''['' \<notin> set a \<and> CHR '']'' \<notin> set b
          \<longrightarrow> getSharedLibraryRPATH h env filename w =
                ((if str_is_not_bytes h
                  then (case decode h ''utf-8'' v of Inl e \<Rightarrow> Inl e | Inr s \<Rightarrow> Inr (Some s))
                  else Inr (Some v)), w'))
       \<and> ((\<forall>l\<in>set (py_split output [CHR 0x0A]). \<not> rpath_tagged l)
          \<longrightarrow> getSharedLibraryRPATH h env filename w = (Inr None, w'))"
proof (intro conjI impI)
  assume "\<forall>l\<in>set (py_split output [CHR 0x0A]). \<not> rpath_tagged l"
  then show "getSharedLibraryRPATH h env filename w = (Inr None, w')"
    using assms
    by (simp add: getSharedLibraryRPATH_def getSharedLibraryRPATHElf_def rpath_elf_scan_none)
next
  assume H: "py_split output [CHR 0x0A] = pre @ line # post
            \<and> (\<forall>l\<in>set pre. \<not> rpath_tagged l) \<and> rpath_tagged line
            \<and> line = a @ ''['' @ v @ '']'' @ b \<and> CHR ''['' \<notin> set a \<and> CHR '']'' \<notin> set b"
  then have sp: "py_split output [CHR 0x0A] = pre @ line # post"
    and pre: "\<forall>l\<in>set pre. \<not> rpath_tagged l" and tagged: "rpath_tagged line"
    and line: "line = a @ ''['' @ v @ '']'' @ b"
    and a: "CHR ''['' \<notin> set a" and b: "CHR '']'' \<notin> set b"
    by blast+
  have "rpath_elf_scan h (py_split output [CHR 0x0A]) =
      (case rpath_elf_value h line of Inl e \<Rightarrow> Inl e | Inr result \<Rightarrow> Inr (Some result))"
    unfolding sp using pre tagged by (rule rpath_elf_scan_first)
  moreover have "rpath_elf_value h line =
      (if str_is_not_bytes h then decode h ''utf-8'' v else Inr v)"
    unfolding line using a b by (rule rpath_elf_value_bracketed)
  ultimately show "getSharedLibraryRPATH h env filename w =
                ((if str_is_not_bytes h
                  then (case decode h ''utf-8'' v of Inl e \<Rightarrow> Inl e | Inr s \<Rightarrow> Inr (Some s))
                  else Inr (Some v)), w')"
    using assms by (simp add: getSharedLibraryRPATH_def getSharedLibraryRPATHElf_def)
qed

theorem getSharedLibraryRPATH_elf_witness:
  "getSharedLibraryRPATH (posix_host ''Linux'' False) (std_env (printing_tool readelf_with_runpath []))
       ''a.so'' world0
     = (Inr (Some ''$ORIGIN/../lib''), world0\<lparr>invoked := [[''readelf'', ''-d'', ''a.so'']]\<rparr>)
   \<and> getSharedLibraryRPATH (posix_host ''Linux'' False) (std_env (printing_tool readelf_without_rpath []))
       ''a.so'' world0
     = (Inr None, world0\<lparr>invoked := [[''readelf'', ''-d'', ''a.so'']]\<rparr>)"
proof -
  let ?h = "posix_host ''Linux'' False"
  let ?w = "world0\<lparr>invoked := [[''readelf'', ''-d'', ''a.so'']]\<rparr>"
  let ?pre = "[''Dynamic section at offset 0x2d90 contains 27 entries:'',
      ''  Tag        Type      Name/Value'',
      '' 0x0000000000000001 (NEEDED)  Shared library: [libc.so.6]'']"
  let ?a = "'' 0x000000000000001d (RUNPATH) Library runpath: ''"
  let ?line = "?a @ ''['' @ ''$ORIGIN/../lib'' @ '']'' @ []"
  let ?post = "['' 0x000000000000000f (RPATH)   Library rpath: [/opt/lib]'',
      '' 0x000000000000000c (INIT)    0x1000'', []]"
  have os: "getOS ?h \<noteq> ''Darwin''" by (simp add: posix_host_def)
  have e1: "executeToolChecked (std_env (printing_tool readelf_with_runpath []))
      [''readelf'', ''-d'', ''a.so''] readelf_usage None world0 = (Inr readelf_with_runpath, ?w)"
    by (simp add: std_env_def executeToolChecked_model_def printing_tool_def world0_def)
  have e2: "executeToolChecked (std_env (printing_tool readelf_without_rpath []))
      [''readelf'', ''-d'', ''a.so''] readelf_usage None world0 = (Inr readelf_without_rpath, ?w)"
    by (simp add: std_env_def executeToolChecked_model_def printing_tool_def world0_def)
  have s1: "py_split readelf_with_runpath [CHR 0x0A] = ?pre @ ?line # ?post" by code_simp
  have p1: "\<forall>l\<in>set ?pre. \<not> rpath_tagged l" by code_simp
  have p2: "rpath_tagged ?line" by code_simp
  have p3: "CHR ''['' \<notin> set ?a" by simp
  have s2: "\<forall>l\<in>set (py_split readelf_without_rpath [CHR 0x0A]). \<not> rpath_tagged l" by code_simp
  have d: "str_is_not_bytes ?h" "decode ?h ''utf-8'' ''$ORIGIN/../lib'' = Inr ''$ORIGIN/../lib''"
    by (simp_all add: posix_host_def str_is_not_bytes_def ascii_decode_def)
  show ?thesis
    using getSharedLibraryRPATH_elf [OF os e1, of ?pre ?line ?post ?a "''$ORIGIN/../lib''" "[]"]
      getSharedLibraryRPATH_elf [OF os e2, of "[]" "[]" "[]" "[]" "[]" "[]"]
      s1 p1 p2 p3 s2 d
    by simp
qed

subsection \<open>getSharedLibraryRPATH on Darwin\<close>

lemma startswith_Cons: "startswith s (c # p) \<Longrightarrow> \<exists>t. s = c # t \<and> startswith t p"
  by (cases s) (auto simp: startswith_def)

lemma startswith_append: "startswith (p @ t) p"
  by (simp add: startswith_def)

lemma load_not_path: "startswith s ''Load command'' \<Longrightarrow> \<not> startswith s ''path ''"
  by (auto dest!: startswith_Cons)

lemma load_not_cmd: "startswith s ''Load command'' \<Longrightarrow> \<not> startswith s ''cmd ''"
  by (auto dest!: startswith_Cons)

lemma cmd_not_path: "startswith s ''cmd '' \<Longrightarrow> \<not> startswith s ''path ''"
  by (auto dest!: startswith_Cons)

lemma cmd_not_load: "startswith s ''cmd '' \<Longrightarrow> \<not> startswith s ''Load command''"
  by (auto dest!: startswith_Cons)

lemma split_ws_acc_cur_nonempty:
  "cur \<noteq> [] \<Longrightarrow> split_ws_acc t cur \<noteq> []"
  by (induction t arbitrary: cur) auto

lemma split_ws_acc_nonempty:
  "\<exists>c\<in>set t. \<not> is_space c \<Longrightarrow> split_ws_acc t cur \<noteq> []"
proof (induction t arbitrary: cur)
  case Nil
  then show ?case by simp
next
  case (Cons a t)
  show ?case
  proof (cases "is_space a")
    case True
    with Cons show ?thesis by auto
  next
    case False
    then show ?thesis using split_ws_acc_cur_nonempty [of "a # cur" t] by simp
  qed
qed

lemma py_strip_last: "py_strip raw \<noteq> [] \<Longrightarrow> \<not> is_space (last (py_strip raw))"
proof -
  assume ne: "py_strip raw \<noteq> []"
  let ?d = "dropWhile is_space (rev (dropWhile is_space raw))"
  from ne have "?d \<noteq> []" by (simp add: py_strip_def)
  then have "\<not> is_space (hd ?d)" by (rule hd_dropWhile)
  moreover have "last (rev ?d) = hd ?d" using \<open>?d \<noteq> []\<close> by (simp add: last_rev)
  ultimately show ?thesis by (simp add: py_strip_def)
qed

lemma second_word_total:
  assumes "startswith (py_strip raw) ''cmd ''"
  shows "\<exists>c. second_word (py_strip raw) = Inr c"
proof -
  from assms obtain t where line: "py_strip raw = ''cmd '' @ t"
    by (auto dest!: startswith_Cons)
  have "\<not> is_space (last (py_strip raw))" using line by (intro py_strip_last) simp
  then have t: "t \<noteq> []" "\<not> is_space (last t)"
    unfolding line by (cases "t = []"; simp add: is_space_def)+
  then have "\<exists>c\<in>set t. \<not> is_space c" using last_in_set by blast
  then have "split_ws_acc t [] \<noteq> []" by (rule split_ws_acc_nonempty)
  then obtain b bs where "split_ws_acc t [] = b # bs" by (cases "split_ws_acc t []") auto
  then have "py_split_ws (py_strip raw) = ''cmd'' # b # bs"
    unfolding line py_split_ws_def by (simp add: is_space_def)
  then show ?thesis by (simp add: second_word_def)
qed

lemma rpath_darwin_value_path:
  assumes "CHR ''('' \<notin> set r"
  shows "rpath_darwin_value h (''path '' @ v @ '' ('' @ r) =
           (if str_is_not_bytes h then decode h ''utf-8'' v else Inr v)"
proof -
  let ?line = "''path '' @ v @ '' ('' @ r"
  have "?line = (''path '' @ v @ '' '') @ CHR ''('' # r" by simp
  then have "py_rfind ?line ''('' = int (length (''path '' @ v @ '' ''))"
    using rfind_from_single [OF assms, of "''path '' @ v @ '' ''" 0] by (simp add: py_rfind_def)
  then have r: "py_rfind ?line ''('' - 1 = int (length ''path '' + length v)" by simp
  have "py_slice (''path '' @ v @ ('' ('' @ r)) (int (length ''path ''))
      (int (length ''path '' + length v)) = v"
    by (rule py_slice_middle)
  then have "py_slice ?line 5 (py_rfind ?line ''('' - 1) = v"
    unfolding r by simp
  then show ?thesis
    unfolding rpath_darwin_value_def Let_def by (simp only:)
qed

lemma rpath_darwin_scan_pass:
  "cmd \<noteq> ''LC_RPATH'' \<Longrightarrow> \<forall>l\<in>set pre. \<not> names_rpath_command l \<Longrightarrow>
     \<exists>cmd' flag'. cmd' \<noteq> ''LC_RPATH'' \<and>
       (\<forall>rest. rpath_darwin_scan h cmd flag (pre @ rest) = rpath_darwin_scan h cmd' flag' rest)"
proof (induction pre arbitrary: cmd flag)
  case Nil
  then show ?case by auto
next
  case (Cons raw pre)
  let ?line = "py_strip raw"
  show ?case
  proof (cases "flag \<and> startswith ?line ''cmd ''")
    case True
    then obtain c where c: "second_word ?line = Inr c"
      using second_word_total [of raw] by blast
    with True Cons.prems(2) have "c \<noteq> ''LC_RPATH''"
      by (auto simp: names_rpath_command_def)
    moreover have "\<forall>l\<in>set pre. \<not> names_rpath_command l" using Cons.prems(2) by simp
    ultimately obtain cmd' flag' where "cmd' \<noteq> ''LC_RPATH''"
      and "\<forall>rest. rpath_darwin_scan h c (startswith ?line ''Load command'') (pre @ rest)
             = rpath_darwin_scan h cmd' flag' rest"
      using Cons.IH [of c "startswith ?line ''Load command''"] by blast
    then show ?thesis
      using True c Cons.prems(1) by (intro exI [of _ cmd'] exI [of _ flag']) (simp add: Let_def)
  next
    case False
    have "\<forall>l\<in>set pre. \<not> names_rpath_command l" using Cons.prems(2) by simp
    then obtain cmd' flag' where "cmd' \<noteq> ''LC_RPATH''"
      and "\<forall>rest. rpath_darwin_scan h cmd (startswith ?line ''Load command'') (pre @ rest)
             = rpath_darwin_scan h cmd' flag' rest"
      using Cons.IH [OF Cons.prems(1), of "startswith ?line ''Load command''"] by blast
    then show ?thesis
      using False Cons.prems(1) by (intro exI [of _ cmd'] exI [of _ flag']) (auto simp: Let_def)
  qed
qed

lemma rpath_darwin_scan_none:
  assumes "\<forall>l\<in>set ls. \<not> names_rpath_command l"
  shows "rpath_darwin_scan h [] False ls = Inr None"
proof -
  obtain cmd' flag' where
    "\<forall>rest. rpath_darwin_scan h [] False (ls @ rest) = rpath_darwin_scan h cmd' flag' rest"
    using rpath_darwin_scan_pass [of "[]" ls h False] assms by auto
  then have "rpath_darwin_scan h [] False (ls @ []) = rpath_darwin_scan h cmd' flag' []" by blast
  then show ?thesis by simp
qed

lemma rpath_darwin_scan_capture:
  assumes "startswith (py_strip header) ''Load command''" and "names_rpath_command cmdl"
  shows "rpath_darwin_scan h cmd flag (header # cmdl # rest) =
           rpath_darwin_scan h ''LC_RPATH'' False rest"
proof -
  have c: "startswith (py_strip cmdl) ''cmd ''" "second_word (py_strip cmdl) = Inr ''LC_RPATH''"
    using assms(2) by (simp_all add: names_rpath_command_def)
  have "rpath_darwin_scan h cmd flag (header # cmdl # rest) =
      rpath_darwin_scan h cmd True (cmdl # rest)"
    using assms(1) load_not_path [OF assms(1)] load_not_cmd [OF assms(1)]
    by (simp add: Let_def)
  also have "\<dots> = rpath_darwin_scan h ''LC_RPATH'' False rest"
    using c cmd_not_path [OF c(1)] cmd_not_load [OF c(1)] by (simp add: Let_def)
  finally show ?thesis .
qed

lemma rpath_darwin_scan_skip:
  "\<forall>l\<in>set mid. \<not> startswith (py_strip l) ''path '' \<and> \<not> startswith (py_strip l) ''Load command''
     \<Longrightarrow> rpath_darwin_scan h ''LC_RPATH'' False (mid @ rest) =
         rpath_darwin_scan h ''LC_RPATH'' False rest"
  by (induction mid) (simp_all add: Let_def)

lemma rpath_darwin_scan_path:
  assumes "py_strip pathl = ''path '' @ v @ '' ('' @ r" and "CHR ''('' \<notin> set r"
  shows "rpath_darwin_scan h ''LC_RPATH'' flag (pathl # post) =
           (if str_is_not_bytes h
            then (case decode h ''utf-8'' v of Inl e \<Rightarrow> Inl e | Inr s \<Rightarrow> Inr (Some s))
            else Inr (Some v))"
proof -
  have "startswith (py_strip pathl) ''path ''"
    unfolding assms(1) by (rule startswith_append)
  moreover have "rpath_darwin_value h (py_strip pathl) =
      (if str_is_not_bytes h then decode h ''utf-8'' v else Inr v)"
    unfolding assms(1) using assms(2) by (rule rpath_darwin_value_path)
  ultimately show ?thesis by (simp add: Let_def)
qed

text \<open>
  Claim C7. On Darwin, when otool ran: if its output holds a line starting with
  "Load command" followed by a line "cmd LC_RPATH" (no earlier line names LC_RPATH as a
  command), and the first later line starting with "path " comes before any further
  load command header and reads "path v (...)", then getSharedLibraryRPATH returns
  \<open>v\<close>, the text between the prefix and the trailing parenthetical annotation, decoded
  on Python 3; if no line names LC_RPATH as a command, it returns None.
\<close>

theorem getSharedLibraryRPATH_darwin:
  assumes "getOS h = ''Darwin''"
    and "executeToolChecked env [''otool'', ''-l'', filename] otool_usage None w
           = (Inr output, w')"
  shows "(py_split output [CHR 0x0A] = pre @ [header, cmdl] @ mid @ [pathl] @ post
            \<and> (\<forall>l\<in>set pre. \<not> names_rpath_command l)
            \<and> startswith (py_strip header) ''Load command'' \<and> names_rpath_command cmdl
            \<and> (\<forall>l\<in>set mid. \<not> startswith (py_strip l) ''path ''
                              \<and> \<not> startswith (py_strip l) ''Load command'')
            \<and> py_strip pathl = ''path '' @ v @ '' ('' @ r \<and> CHR ''('' \<notin> set r
          \<longrightarrow> getSharedLibraryRPATH h env filename w =
                ((if str_is_not_bytes h
                  then (case decode h ''utf-8'' v of Inl e \<Rightarrow> Inl e | Inr s \<Rightarrow> Inr (Some s))
                  else Inr (Some v)), w'))
       \<and> ((\<forall>l\<in>set (py_split output [CHR 0x0A]). \<not> names_rpath_command l)
          \<longrightarrow> getSharedLibraryRPATH h env filename w = (Inr None, w'))"
proof (intro conjI impI)
  assume "\<forall>l\<in>set (py_split output [CHR 0x0A]). \<not> names_rpath_command l"
  then show "getSharedLibraryRPATH h env filename w = (Inr None, w')"
    using assms
    by (simp add: getSharedLibraryRPATH_def getSharedLibraryRPATHDarwin_def
          rpath_darwin_scan_none)
next
  assume "py_split output [CHR 0x0A] = pre @ [header, cmdl] @ mid @ [pathl] @ post
            \<and> (\<forall>l\<in>set pre. \<not> names_rpath_command l)
            \<and> startswith (py_strip header) ''Load command'' \<and> names_rpath_command cmdl
            \<and> (\<forall>l\<in>set mid. \<not> startswith (py_strip l) ''path ''
                              \<and> \<not> startswith (py_strip l) ''Load command'')
            \<and> py_strip pathl = ''path '' @ v @ '' ('' @ r \<and> CHR ''('' \<notin> set r"
  then have sp: "py_split output [CHR 0x0A] = pre @ (header # cmdl # (mid @ (pathl # post)))"
    and pre: "\<forall>l\<in>set pre. \<not> names_rpath_command l"
    and header: "startswith (py_strip header) ''Load command''"
    and cmdl: "names_rpath_command cmdl"
    and mid: "\<forall>l\<in>set mid. \<not> startswith (py_strip l) ''path ''
                              \<and> \<not> startswith (py_strip l) ''Load command''"
    and pathl: "py_strip pathl = ''path '' @ v @ '' ('' @ r" and r: "CHR ''('' \<notin> set r"
    by simp_all
  obtain cmd' flag' where
    "\<forall>rest. rpath_darwin_scan h [] False (pre @ rest) = rpath_darwin_scan h cmd' flag' rest"
    using rpath_darwin_scan_pass [of "[]" pre h False] pre by auto
  then have "rpath_darwin_scan h [] False (py_split output [CHR 0x0A]) =
      rpath_darwin_scan h cmd' flag' (header # cmdl # (mid @ (pathl # post)))"
    unfolding sp by blast
  also have "\<dots> = rpath_darwin_scan h ''LC_RPATH'' False (mid @ (pathl # post))"
    using header cmdl by (rule rpath_darwin_scan_capture)
  also have "\<dots> = rpath_darwin_scan h ''LC_RPATH'' False (pathl # post)"
    using mid by (rule rpath_darwin_scan_skip)
  also have "\<dots> = (if str_is_not_bytes h
            then (case decode h ''utf-8'' v of Inl e \<Rightarrow> Inl e | Inr s \<Rightarrow> Inr (Some s))
            else Inr (Some v))"
    using pathl r by (rule rpath_darwin_scan_path)
  finally show "getSharedLibraryRPATH h env filename w =
                ((if str_is_not_bytes h
                  then (case decode h ''utf-8'' v of Inl e \<Rightarrow> Inl e | Inr s \<Rightarrow> Inr (Some s))
                  else Inr (Some v)), w')"
    using assms by (simp add: getSharedLibraryRPATH_def getSharedLibraryRPATHDarwin_def)
qed

theorem getSharedLibraryRPATH_darwin_witness:
  "getSharedLibraryRPATH (posix_host ''Darwin'' False) (std_env (printing_tool otool_with_rpath []))
       ''a.dylib'' world0
     = (Inr (Some ''@loader_path/../lib''), world0\<lparr>invoked := [[''otool'', ''-l'', ''a.dylib'']]\<rparr>)
   \<and> getSharedLibraryRPATH (posix_host ''Darwin'' False) (std_env (printing_tool otool_without_rpath []))
       ''a.dylib'' world0
     = (Inr None, world0\<lparr>invoked := [[''otool'', ''-l'', ''a.dylib'']]\<rparr>)"
proof -
  let ?h = "posix_host ''Darwin'' False"
  let ?w = "world0\<lparr>invoked := [[''otool'', ''-l'', ''a.dylib'']]\<rparr>"
  let ?pre = "[''a.dylib:'', ''Load command 11'', ''          cmd LC_LOAD_DYLIB'',
      ''      cmdsize 56'', ''         name /usr/lib/libSystem.B.dylib (offset 24)'']"
  let ?header = "''Load command 12''"
  let ?cmdl = "''          cmd LC_RPATH''"
  let ?mid = "[''      cmdsize 32'']"
  let ?pathl = "''         path @loader_path/../lib (offset 12)''"
  let ?post = "[''Load command 13'', ''      cmd LC_FUNCTION_STARTS'', []]"
  have os: "getOS ?h = ''Darwin''" by (simp add: posix_host_def)
  have e1: "executeToolChecked (std_env (printing_tool otool_with_rpath []))
      [''otool'', ''-l'', ''a.dylib''] otool_usage None world0 = (Inr otool_with_rpath, ?w)"
    by (simp add: std_env_def executeToolChecked_model_def printing_tool_def world0_def)
  have e2: "executeToolChecked (std_env (printing_tool otool_without_rpath []))
      [''otool'', ''-l'', ''a.dylib''] otool_usage None world0 = (Inr otool_without_rpath, ?w)"
    by (simp add: std_env_def executeToolChecked_model_def printing_tool_def world0_def)
  have s1: "py_split otool_with_rpath [CHR 0x0A] = ?pre @ [?header, ?cmdl] @ ?mid @ [?pathl] @ ?post"
    by code_simp
  have p1: "\<forall>l\<in>set ?pre. \<not> names_rpath_command l" by code_simp
  have p2: "startswith (py_strip ?header) ''Load command''" by code_simp
  have p3: "names_rpath_command ?cmdl" by code_simp
  have p4: "\<forall>l\<in>set ?mid. \<not> startswith (py_strip l) ''path ''
                              \<and> \<not> startswith (py_strip l) ''Load command''" by code_simp
  have p5: "py_strip ?pathl = ''path '' @ ''@loader_path/../lib'' @ '' ('' @ ''offset 12)''"
    by code_simp
  have p6: "CHR ''('' \<notin> set ''offset 12)''" by simp
  have s2: "\<forall>l\<in>set (py_split otool_without_rpath [CHR 0x0A]). \<not> names_rpath_command l"
    by code_simp
  have d: "str_is_not_bytes ?h"
    "decode ?h ''utf-8'' ''@loader_path/../lib'' = Inr ''@loader_path/../lib''"
    by (simp_all add: posix_host_def str_is_not_bytes_def ascii_decode_def)
  have c1: "getSharedLibraryRPATH ?h (std_env (printing_tool otool_with_rpath [])) ''a.dylib'' world0
      = (Inr (Some ''@loader_path/../lib''), ?w)"
    using getSharedLibraryRPATH_darwin [OF os e1, of ?pre ?header ?cmdl ?mid ?pathl ?post
        "''@loader_path/../lib''" "''offset 12)''"]
      s1 p1 p2 p3 p4 p5 p6 d
    by (simp only: simp_thms if_True sum.case)
  have c2: "getSharedLibraryRPATH ?h (std_env (printing_tool otool_without_rpath [])) ''a.dylib'' world0
      = (Inr None, ?w)"
    using getSharedLibraryRPATH_darwin [OF os e2, of "[]" "[]" "[]" "[]" "[]" "[]" "[]" "[]"] s2
    by (simp only: simp_thms)
  from c1 c2 show ?thesis by (rule conjI)
qed

subsection \<open>removeSharedLibraryRPATH\<close>

text \<open>
  Claim C3. When getSharedLibraryRPATH finds no RPATH (returns None),
  removeSharedLibraryRPATH returns at once: the world it leaves is the world the lookup
  left, so neither the writable scope nor chrpath or install_name_tool is entered. With
  the tools of a concrete world, the only command run is the lookup itself (readelf -d
  or otool -l), and when that tool leaves the files alone every file is the same before
  and after the call.
\<close>

theorem removeSharedLibraryRPATH_no_rpath:
  "(getSharedLibraryRPATH h env filename w = (Inr None, w')
      \<longrightarrow> removeSharedLibraryRPATH h env filename w = (Inr (), w'))
   \<and> (getSharedLibraryRPATH h (std_env tools) filename cw = (Inr None, cw')
      \<longrightarrow> (\<exists>p. tools (rpath_lookup_command h filename) (files cw) = Some p
              \<and> removeSharedLibraryRPATH h (std_env tools) filename cw =
                  (Inr (), cw\<lparr>files := files_after p,
                               invoked := invoked cw @ [rpath_lookup_command h filename]\<rparr>)))
   \<and> (getSharedLibraryRPATH h (std_env tools) filename cw = (Inr None, cw')
        \<and> (\<forall>p. tools (rpath_lookup_command h filename) (files cw) = Some p
                 \<longrightarrow> files_after p = files cw)
      \<longrightarrow> files (snd (removeSharedLibraryRPATH h (std_env tools) filename cw)) = files cw)"
proof -
  have generic: "removeSharedLibraryRPATH h e filename v = (Inr (), v')"
    if "getSharedLibraryRPATH h e filename v = (Inr None, v')" for e :: "'x env" and v v'
    using that by (simp add: removeSharedLibraryRPATH_def)
  have lookup: "\<exists>p. tools (rpath_lookup_command h filename) (files cw) = Some p
      \<and> cw' = cw\<lparr>files := files_after p,
                   invoked := invoked cw @ [rpath_lookup_command h filename]\<rparr>"
    if "getSharedLibraryRPATH h (std_env tools) filename cw = (Inr None, cw')"
    using that
    by (auto simp: getSharedLibraryRPATH_def getSharedLibraryRPATHElf_def
          getSharedLibraryRPATHDarwin_def std_env_def executeToolChecked_model_def
          rpath_lookup_command_def Let_def split: option.splits if_splits)
  show ?thesis
  proof (intro conjI impI)
    assume "getSharedLibraryRPATH h env filename w = (Inr None, w')"
    then show "removeSharedLibraryRPATH h env filename w = (Inr (), w')" by (rule generic)
  next
    assume a: "getSharedLibraryRPATH h (std_env tools) filename cw = (Inr None, cw')"
    from lookup [OF a] generic [OF a]
    show "\<exists>p. tools (rpath_lookup_command h filename) (files cw) = Some p
              \<and> removeSharedLibraryRPATH h (std_env tools) filename cw =
                  (Inr (), cw\<lparr>files := files_after p,
                               invoked := invoked cw @ [rpath_lookup_command h filename]\<rparr>)"
      by auto
  next
    assume a: "getSharedLibraryRPATH h (std_env tools) filename cw = (Inr None, cw')
        \<and> (\<forall>p. tools (rpath_lookup_command h filename) (files cw) = Some p
                 \<longrightarrow> files_after p = files cw)"
    then have g: "getSharedLibraryRPATH h (std_env tools) filename cw = (Inr None, cw')" by simp
    from lookup [OF g] generic [OF g] a
    show "files (snd (removeSharedLibraryRPATH h (std_env tools) filename cw)) = files cw"
      by auto
  qed
qed

theorem removeSharedLibraryRPATH_no_rpath_witness:
  "removeSharedLibraryRPATH (posix_host ''Linux'' False)
       (std_env (printing_tool readelf_without_rpath [])) ''a.so''
       (world0\<lparr>files := [''a.so'' \<mapsto> ''ELF'']\<rparr>)
     = (Inr (), world0\<lparr>files := [''a.so'' \<mapsto> ''ELF''],
                        invoked := [[''readelf'', ''-d'', ''a.so'']]\<rparr>)
   \<and> files (snd (removeSharedLibraryRPATH (posix_host ''Linux'' False)
       (std_env (printing_tool readelf_without_rpath [])) ''a.so''
       (world0\<lparr>files := [''a.so'' \<mapsto> ''ELF'']\<rparr>))) = [''a.so'' \<mapsto> ''ELF'']"
proof -
  let ?h = "posix_host ''Linux'' False"
  let ?tools = "printing_tool readelf_without_rpath []"
  let ?w = "world0\<lparr>files := [''a.so'' \<mapsto> ''ELF'']\<rparr>"
  let ?w' = "world0\<lparr>files := [''a.so'' \<mapsto> ''ELF''],
                    invoked := [[''readelf'', ''-d'', ''a.so'']]\<rparr>"
  have s: "\<forall>l\<in>set (py_split readelf_without_rpath [CHR 0x0A]). \<not> rpath_tagged l" by code_simp
  have g: "getSharedLibraryRPATH ?h (std_env ?tools) ''a.so'' ?w = (Inr None, ?w')"
    using rpath_elf_scan_none [OF s, of ?h]
    by (simp add: getSharedLibraryRPATH_def getSharedLibraryRPATHElf_def posix_host_def
          std_env_def executeToolChecked_model_def printing_tool_def world0_def)
  have ro: "\<forall>p. ?tools (rpath_lookup_command ?h ''a.so'') (files ?w) = Some p
      \<longrightarrow> files_after p = files ?w"
    by (auto simp: printing_tool_def)
  have f: "files ?w = [''a.so'' \<mapsto> ''ELF'']" by simp
  show ?thesis
    using removeSharedLibraryRPATH_no_rpath [of ?h "std_env ?tools" "''a.so''" ?w ?w' ?tools ?w ?w']
      g ro f
    by simp
qed

subsection \<open>removeSxsFromDLL\<close>

text \<open>
  Claim C9. For a file name whose case-normalized base name is not one of sip.pyd,
  win32ui.pyd and winxpgui.pyd, removeSxsFromDLL returns at once and leaves the world as
  it is: no resource is listed or deleted, whatever the file contains. For a file name
  in the set it lists the RT_MANIFEST resources, deletes exactly the names listed, and
  does nothing more when none is listed.
\<close>

theorem removeSxsFromDLL_allow_list:
  "set sxs_modules = {''sip.pyd'', ''win32ui.pyd'', ''winxpgui.pyd''}
   \<and> (os_path_normcase h (os_path_basename h filename) \<notin> set sxs_modules
      \<longrightarrow> removeSxsFromDLL h rs filename w = (Inr (), w))
   \<and> (os_path_normcase h (os_path_basename h filename) \<in> set sxs_modules
        \<and> getResourcesFromDLL rs filename [RT_MANIFEST rs] False w = (Inr res_names, w')
      \<longrightarrow> removeSxsFromDLL h rs filename w =
            (if res_names = [] then (Inr (), w')
             else deleteWindowsResources rs filename (RT_MANIFEST rs) res_names w'))"
  by (auto simp: removeSxsFromDLL_def getSxsFromDLL_def sxs_modules_def)

theorem removeSxsFromDLL_allow_list_witness:
  "removeSxsFromDLL windows_host listed_resources ''C:/Python/Lib/other.pyd''
       [(''C:/Python/Lib/other.pyd'', 24, 1)]
     = (Inr (), [(''C:/Python/Lib/other.pyd'', 24, 1)])
   \<and> removeSxsFromDLL windows_host listed_resources ''C:/Python/Lib/SIP.pyd''
       [(''C:/Python/Lib/SIP.pyd'', 24, 1), (''C:/Python/Lib/SIP.pyd'', 16, 1),
        (''C:/Python/Lib/SIP.pyd'', 24, 2)]
     = (Inr (), [(''C:/Python/Lib/SIP.pyd'', 16, 1)])
   \<and> removeSxsFromDLL windows_host listed_resources ''C:/Python/Lib/win32ui.pyd''
       [(''C:/Python/Lib/win32ui.pyd'', 16, 1)]
     = (Inr (), [(''C:/Python/Lib/win32ui.pyd'', 16, 1)])"
proof -
  have n1: "os_path_normcase windows_host (os_path_basename windows_host ''C:/Python/Lib/other.pyd'')
      = ''other.pyd''" by code_simp
  have n2: "os_path_normcase windows_host (os_path_basename windows_host ''C:/Python/Lib/SIP.pyd'')
      = ''sip.pyd''" by code_simp
  have n3: "os_path_normcase windows_host (os_path_basename windows_host ''C:/Python/Lib/win32ui.pyd'')
      = ''win32ui.pyd''" by code_simp
  have g2: "getResourcesFromDLL listed_resources ''C:/Python/Lib/SIP.pyd''
      [RT_MANIFEST listed_resources] False
      [(''C:/Python/Lib/SIP.pyd'', 24, 1), (''C:/Python/Lib/SIP.pyd'', 16, 1),
        (''C:/Python/Lib/SIP.pyd'', 24, 2)]
      = (Inr [1, 2], [(''C:/Python/Lib/SIP.pyd'', 24, 1), (''C:/Python/Lib/SIP.pyd'', 16, 1),
        (''C:/Python/Lib/SIP.pyd'', 24, 2)])"
    by (simp add: listed_resources_def)
  have g3: "getResourcesFromDLL listed_resources ''C:/Python/Lib/win32ui.pyd''
      [RT_MANIFEST listed_resources] False [(''C:/Python/Lib/win32ui.pyd'', 16, 1)]
      = (Inr [], [(''C:/Python/Lib/win32ui.pyd'', 16, 1)])"
    by (simp add: listed_resources_def)
  have d2: "deleteWindowsResources listed_resources ''C:/Python/Lib/SIP.pyd''
      (RT_MANIFEST listed_resources) [1, 2]
      [(''C:/Python/Lib/SIP.pyd'', 24, 1), (''C:/Python/Lib/SIP.pyd'', 16, 1),
        (''C:/Python/Lib/SIP.pyd'', 24, 2)]
      = (Inr (), [(''C:/Python/Lib/SIP.pyd'', 16, 1)])"
    by (simp add: listed_resources_def)
  show ?thesis
    using
      removeSxsFromDLL_allow_list [of windows_host "''C:/Python/Lib/other.pyd''" listed_resources
        "[(''C:/Python/Lib/other.pyd'', 24, 1)]" "[]" "[]"]
      removeSxsFromDLL_allow_list [of windows_host "''C:/Python/Lib/SIP.pyd''" listed_resources
        "[(''C:/Python/Lib/SIP.pyd'', 24, 1), (''C:/Python/Lib/SIP.pyd'', 16, 1),
          (''C:/Python/Lib/SIP.pyd'', 24, 2)]" "[1, 2]"
        "[(''C:/Python/Lib/SIP.pyd'', 24, 1), (''C:/Python/Lib/SIP.pyd'', 16, 1),
          (''C:/Python/Lib/SIP.pyd'', 24, 2)]"]
      removeSxsFromDLL_allow_list [of windows_host "''C:/Python/Lib/win32ui.pyd''" listed_resources
        "[(''C:/Python/Lib/win32ui.pyd'', 16, 1)]" "[]" "[(''C:/Python/Lib/win32ui.pyd'', 16, 1)]"]
    unfolding n1 n2 n3 g2 g3 d2 by (simp add: sxs_modules_def)
qed

subsection \<open>locateDLL\<close>

lemma walk_find_None:
  "\<forall>(root, dirs, files)\<in>set entries. name \<notin> set files \<Longrightarrow> walk_find name entries = None"
  by (induction name entries rule: walk_find.induct) auto

lemma locateDLLFromFilesystem_None:
  "\<forall>path\<in>set paths. \<forall>(root, dirs, files)\<in>set (os_walk ld path). name \<notin> set files
     \<Longrightarrow> locateDLLFromFilesystem ld name paths = None"
  by (induction paths) (simp_all add: walk_find_None)

text \<open>
  Claim C4. A library name that the loader cannot resolve (find_library returns None)
  makes locateDLL return None on every host, without an error and without running a
  tool. On Alpine, a name the loader resolves to a bare name that no directory of the
  walk over /lib, /usr/lib and /usr/local/lib contains yields None as well.
\<close>

theorem locateDLL_unresolved:
  "(find_library ld dll_name = None \<longrightarrow> locateDLL h ld env dll_name w = (Inr None, w))
   \<and> (find_library ld dll_name = Some name \<and> \<not> isWin32Windows h \<and> getOS h \<noteq> ''Darwin''
        \<and> \<not> py_in ''/'' name \<and> isAlpineLinux h
        \<and> (\<forall>path\<in>set [''/lib'', ''/usr/lib'', ''/usr/local/lib''].
              \<forall>(root, dirs, files)\<in>set (os_walk ld path). name \<notin> set files)
      \<longrightarrow> locateDLL h ld env dll_name w = (Inr None, w))"
proof (intro conjI impI)
  assume "find_library ld dll_name = None"
  then show "locateDLL h ld env dll_name w = (Inr None, w)" by (simp add: locateDLL_def)
next
  assume a: "find_library ld dll_name = Some name \<and> \<not> isWin32Windows h \<and> getOS h \<noteq> ''Darwin''
        \<and> \<not> py_in ''/'' name \<and> isAlpineLinux h
        \<and> (\<forall>path\<in>set [''/lib'', ''/usr/lib'', ''/usr/local/lib''].
              \<forall>(root, dirs, files)\<in>set (os_walk ld path). name \<notin> set files)"
  then have "locateDLLFromFilesystem ld name [''/lib'', ''/usr/lib'', ''/usr/local/lib''] = None"
    by (intro locateDLLFromFilesystem_None) blast
  with a show "locateDLL h ld env dll_name w = (Inr None, w)" by (simp add: locateDLL_def)
qed

theorem locateDLL_unresolved_witness:
  "locateDLL windows_host no_loader (std_env no_tools) ''nosuchlib'' world0 = (Inr None, world0)
   \<and> locateDLL (posix_host ''Darwin'' False) no_loader (std_env no_tools) ''nosuchlib'' world0
       = (Inr None, world0)
   \<and> locateDLL (posix_host ''Linux'' False) no_loader (std_env no_tools) ''nosuchlib'' world0
       = (Inr None, world0)
   \<and> locateDLL (posix_host ''Linux'' True) bare_loader (std_env no_tools) ''nosuchlib'' world0
       = (Inr None, world0)"
proof -
  have n: "find_library no_loader ''nosuchlib'' = None" by (simp add: no_loader_def)
  have b: "find_library bare_loader ''nosuchlib'' = Some ''nosuchlib''"
    "\<not> isWin32Windows (posix_host ''Linux'' True)" "getOS (posix_host ''Linux'' True) \<noteq> ''Darwin''"
    "isAlpineLinux (posix_host ''Linux'' True)"
    by (simp_all add: bare_loader_def posix_host_def)
  have s: "\<not> py_in ''/'' ''nosuchlib''" by code_simp
  have w: "\<forall>path\<in>set [''/lib'', ''/usr/lib'', ''/usr/local/lib''].
      \<forall>(root, dirs, files)\<in>set (os_walk bare_loader path). ''nosuchlib'' \<notin> set files"
    by (simp add: bare_loader_def)
  show ?thesis
    using locateDLL_unresolved [of no_loader "''nosuchlib''" windows_host "std_env no_tools" world0 "[]"]
      locateDLL_unresolved [of no_loader "''nosuchlib''" "posix_host ''Darwin'' False"
        "std_env no_tools" world0 "[]"]
      locateDLL_unresolved [of no_loader "''nosuchlib''" "posix_host ''Linux'' False"
        "std_env no_tools" world0 "[]"]
      locateDLL_unresolved [of bare_loader "''nosuchlib''" "posix_host ''Linux'' True"
        "std_env no_tools" world0 "''nosuchlib''"]
      n b s w
    by simp
qed

subsection \<open>locateDLL and the output of ldconfig\<close>

lemma build_dll_map_keeps:
  "\<forall>l\<in>set ls. \<not> isl (parse_ldconfig_line h l) \<Longrightarrow> m k = Some v \<Longrightarrow>
     \<exists>m'. build_dll_map h ls m = Inr m' \<and> m' k = Some v"
proof (induction ls arbitrary: m)
  case Nil
  then show ?case by simp
next
  case (Cons l ls)
  from Cons.prems(1) obtain left right where p: "parse_ldconfig_line h l = Inr (left, right)"
    by (cases "parse_ldconfig_line h l") auto
  let ?m = "if m left = None then m(left \<mapsto> right) else m"
  have "?m k = Some v" using Cons.prems(2) by auto
  moreover have "\<forall>l\<in>set ls. \<not> isl (parse_ldconfig_line h l)" using Cons.prems(1) by simp
  ultimately obtain m' where "build_dll_map h ls ?m = Inr m'" "m' k = Some v"
    using Cons.IH [of ?m] by blast
  then show ?case using p by simp
qed

lemma build_dll_map_pass:
  "\<forall>l\<in>set pre. \<not> isl (parse_ldconfig_line h l) \<and> fst (projr (parse_ldconfig_line h l)) \<noteq> k
     \<Longrightarrow> m k = None \<Longrightarrow>
     \<exists>m1. m1 k = None \<and> (\<forall>rest. build_dll_map h (pre @ rest) m = build_dll_map h rest m1)"
proof (induction pre arbitrary: m)
  case Nil
  then show ?case by auto
next
  case (Cons l pre)
  from Cons.prems(1) obtain left right where p: "parse_ldconfig_line h l = Inr (left, right)"
    and ne: "left \<noteq> k"
    by (cases "parse_ldconfig_line h l") auto
  let ?m = "if m left = None then m(left \<mapsto> right) else m"
  have "?m k = None" using Cons.prems(2) ne by auto
  moreover have "\<forall>l\<in>set pre. \<not> isl (parse_ldconfig_line h l)
      \<and> fst (projr (parse_ldconfig_line h l)) \<noteq> k" using Cons.prems(1) by simp
  ultimately obtain m1 where "m1 k = None"
    "\<forall>rest. build_dll_map h (pre @ rest) ?m = build_dll_map h rest m1"
    using Cons.IH [of ?m] by blast
  then show ?case using p by (intro exI [of _ m1]) simp
qed

lemma build_dll_map_first:
  assumes "\<forall>l\<in>set pre. \<not> isl (parse_ldconfig_line h l)
             \<and> fst (projr (parse_ldconfig_line h l)) \<noteq> k"
    and "parse_ldconfig_line h row = Inr (k, path)"
    and "\<forall>l\<in>set post. \<not> isl (parse_ldconfig_line h l)"
  shows "\<exists>m'. build_dll_map h (pre @ row # post) Map.empty = Inr m' \<and> m' k = Some path"
proof -
  obtain m1 where m1: "m1 k = None"
    "\<forall>rest. build_dll_map h (pre @ rest) Map.empty = build_dll_map h rest m1"
    using build_dll_map_pass [OF assms(1), of Map.empty] by auto
  have "build_dll_map h (pre @ row # post) Map.empty = build_dll_map h (row # post) m1"
    using m1(2) by blast
  also have "\<dots> = build_dll_map h post (m1(k \<mapsto> path))"
    using assms(2) m1(1) by simp
  finally show ?thesis
    using build_dll_map_keeps [OF assms(3), of "m1(k \<mapsto> path)" k path] by simp
qed

lemma build_dll_map_abort:
  "\<forall>l\<in>set pre. \<not> isl (parse_ldconfig_line h l) \<Longrightarrow> parse_ldconfig_line h bad = Inl e \<Longrightarrow>
     build_dll_map h (pre @ bad # post) m = Inl e"
proof (induction pre arbitrary: m)
  case Nil
  then show ?case by simp
next
  case (Cons l pre)
  from Cons.prems(1) obtain left right where p: "parse_ldconfig_line h l = Inr (left, right)"
    by (cases "parse_ldconfig_line h l") auto
  then show ?case using Cons by simp
qed

text \<open>
  Claim C5. The rows of ldconfig -p, the first line left out, are entered into the
  map in order, and a name that is already in the map is not entered again: when every
  row parses, the map holds for a name the path of the first row that declares it,
  whatever later rows declare for the same name, and locateDLL returns that path.
\<close>

theorem locateDLL_ldconfig_first_wins:
  "((\<forall>l\<in>set pre. \<not> isl (parse_ldconfig_line h l)
                   \<and> fst (projr (parse_ldconfig_line h l)) \<noteq> k)
      \<and> parse_ldconfig_line h row = Inr (k, path)
      \<and> (\<forall>l\<in>set post. \<not> isl (parse_ldconfig_line h l))
      \<longrightarrow> (\<exists>m. build_dll_map h (pre @ row # post) Map.empty = Inr m \<and> m k = Some path))
   \<and> (find_library ld name0 = Some k \<and> \<not> isWin32Windows h \<and> getOS h \<noteq> ''Darwin''
        \<and> \<not> py_in ''/'' k \<and> \<not> isAlpineLinux h
        \<and> executeToolChecked env [''/sbin/ldconfig'', ''-p''] ldconfig_usage None w
             = (Inr output, w')
        \<and> drop 1 (py_splitlines output) = pre @ row # post
        \<and> (\<forall>l\<in>set pre. \<not> isl (parse_ldconfig_line h l)
                   \<and> fst (projr (parse_ldconfig_line h l)) \<noteq> k)
        \<and> parse_ldconfig_line h row = Inr (k, path)
        \<and> (\<forall>l\<in>set post. \<not> isl (parse_ldconfig_line h l))
      \<longrightarrow> locateDLL h ld env name0 w = (Inr (Some path), w'))"
proof (intro conjI impI)
  assume "(\<forall>l\<in>set pre. \<not> isl (parse_ldconfig_line h l)
                   \<and> fst (projr (parse_ldconfig_line h l)) \<noteq> k)
      \<and> parse_ldconfig_line h row = Inr (k, path)
      \<and> (\<forall>l\<in>set post. \<not> isl (parse_ldconfig_line h l))"
  then show "\<exists>m. build_dll_map h (pre @ row # post) Map.empty = Inr m \<and> m k = Some path"
    using build_dll_map_first [of pre h k row path post] by blast
next
  assume a: "find_library ld name0 = Some k \<and> \<not> isWin32Windows h \<and> getOS h \<noteq> ''Darwin''
        \<and> \<not> py_in ''/'' k \<and> \<not> isAlpineLinux h
        \<and> executeToolChecked env [''/sbin/ldconfig'', ''-p''] ldconfig_usage None w
             = (Inr output, w')
        \<and> drop 1 (py_splitlines output) = pre @ row # post
        \<and> (\<forall>l\<in>set pre. \<not> isl (parse_ldconfig_line h l)
                   \<and> fst (projr (parse_ldconfig_line h l)) \<noteq> k)
        \<and> parse_ldconfig_line h row = Inr (k, path)
        \<and> (\<forall>l\<in>set post. \<not> isl (parse_ldconfig_line h l))"
  then obtain m where "build_dll_map h (pre @ row # post) Map.empty = Inr m" "m k = Some path"
    using build_dll_map_first [of pre h k row path post] by blast
  with a show "locateDLL h ld env name0 w = (Inr (Some path), w')"
    by (simp add: locateDLL_def)
qed

theorem locateDLL_ldconfig_first_wins_witness:
  "locateDLL (posix_host ''Linux'' False) bare_loader (std_env (printing_tool ldconfig_output []))
       ''libz.so.1'' world0
     = (Inr (Some ''/lib/x86_64-linux-gnu/libz.so.1''),
        world0\<lparr>invoked := [[''/sbin/ldconfig'', ''-p'']]\<rparr>)
   \<and> parse_ldconfig_line (posix_host ''Linux'' False)
         ([CHR 0x09] @ ''libz.so.1 (libc6) => /lib32/libz.so.1'')
       = Inr (''libz.so.1'', ''/lib32/libz.so.1'')"
proof -
  let ?h = "posix_host ''Linux'' False"
  let ?row = "[CHR 0x09] @ ''libz.so.1 (libc6,x86-64) => /lib/x86_64-linux-gnu/libz.so.1''"
  let ?post = "[[CHR 0x09] @ ''libz.so.1 (libc6) => /lib32/libz.so.1'',
      [CHR 0x09] @ ''libm.so.6 (libc6,x86-64) => /lib/x86_64-linux-gnu/libm.so.6'']"
  let ?w = "world0\<lparr>invoked := [[''/sbin/ldconfig'', ''-p'']]\<rparr>"
  have b: "find_library bare_loader ''libz.so.1'' = Some ''libz.so.1''"
    "\<not> isWin32Windows ?h" "getOS ?h \<noteq> ''Darwin''" "\<not> isAlpineLinux ?h"
    by (simp_all add: bare_loader_def posix_host_def)
  have s: "\<not> py_in ''/'' ''libz.so.1''" by code_simp
  have e: "executeToolChecked (std_env (printing_tool ldconfig_output []))
      [''/sbin/ldconfig'', ''-p''] ldconfig_usage None world0 = (Inr ldconfig_output, ?w)"
    by (simp add: std_env_def executeToolChecked_model_def printing_tool_def world0_def)
  have d: "drop 1 (py_splitlines ldconfig_output) = [] @ ?row # ?post" by code_simp
  have r: "parse_ldconfig_line ?h ?row = Inr (''libz.so.1'', ''/lib/x86_64-linux-gnu/libz.so.1'')"
    by code_simp
  have p: "\<forall>l\<in>set ?post. \<not> isl (parse_ldconfig_line ?h l)" by code_simp
  have r2: "parse_ldconfig_line ?h ([CHR 0x09] @ ''libz.so.1 (libc6) => /lib32/libz.so.1'')
      = Inr (''libz.so.1'', ''/lib32/libz.so.1'')" by code_simp
  show ?thesis
    using locateDLL_ldconfig_first_wins [of "[]" ?h "''libz.so.1''" ?row
        "''/lib/x86_64-linux-gnu/libz.so.1''" ?post bare_loader "''libz.so.1''"
        "std_env (printing_tool ldconfig_output [])" world0 ldconfig_output ?w]
      b s e d r p r2
    by simp
qed

text \<open>
  Claim C10, as stated, fails: a row with one "=>" that is not surrounded by spaces has
  no " => " separator, yet it passes the first assertion and the resolution aborts with
  a ValueError from unpacking the split, not with an assertion failure.
\<close>

theorem ldconfig_unspaced_row_counterexample:
  "py_count ([CHR 0x09] @ ''libz.so.1 (libc6)=>/lib/libz.so.1'') '' => '' = 0
   \<and> parse_ldconfig_line (posix_host ''Linux'' False)
         ([CHR 0x09] @ ''libz.so.1 (libc6)=>/lib/libz.so.1'') = Inl ValueError
   \<and> locateDLL (posix_host ''Linux'' False) bare_loader
         (std_env (printing_tool ldconfig_output_unspaced [])) ''libz.so.1'' world0
       = (Inl ValueError, world0\<lparr>invoked := [[''/sbin/ldconfig'', ''-p'']]\<rparr>)"
proof (intro conjI)
  show "py_count ([CHR 0x09] @ ''libz.so.1 (libc6)=>/lib/libz.so.1'') '' => '' = 0"
    by code_simp
  show "parse_ldconfig_line (posix_host ''Linux'' False)
         ([CHR 0x09] @ ''libz.so.1 (libc6)=>/lib/libz.so.1'') = Inl ValueError"
    by code_simp
  have d: "drop 1 (py_splitlines ldconfig_output_unspaced)
      = [[CHR 0x09] @ ''libz.so.1 (libc6)=>/lib/libz.so.1'']" by code_simp
  have "parse_ldconfig_line (posix_host ''Linux'' False)
         ([CHR 0x09] @ ''libz.so.1 (libc6)=>/lib/libz.so.1'') = Inl ValueError"
    by code_simp
  then have "build_dll_map (posix_host ''Linux'' False)
      (drop 1 (py_splitlines ldconfig_output_unspaced)) Map.empty = Inl ValueError"
    unfolding d by simp
  moreover have "\<not> py_in ''/'' ''libz.so.1''" by code_simp
  ultimately show "locateDLL (posix_host ''Linux'' False) bare_loader
         (std_env (printing_tool ldconfig_output_unspaced [])) ''libz.so.1'' world0
       = (Inl ValueError, world0\<lparr>invoked := [[''/sbin/ldconfig'', ''-p'']]\<rparr>)"
    by (simp add: locateDLL_def bare_loader_def posix_host_def std_env_def
          executeToolChecked_model_def printing_tool_def world0_def)
qed

text \<open>
  Claim C10, amended. The first line of the output of ldconfig -p is left out. Each
  remaining line must contain exactly one "=>" (an assertion), its stripped text must
  split at " => " into exactly two columns (otherwise the unpacking raises ValueError),
  and the left column must contain " (" (an assertion). The first line that violates
  one of these, or does not decode, aborts the whole resolution with that error; it is
  never skipped.
\<close>

theorem locateDLL_ldconfig_malformed:
  "(py_count line ''=>'' \<noteq> 1 \<longrightarrow> parse_ldconfig_line h line = Inl AssertionError)
   \<and> (py_count line ''=>'' = 1 \<and> length (py_split (py_strip line) '' => '') \<noteq> 2
      \<longrightarrow> parse_ldconfig_line h line = Inl ValueError)
   \<and> (py_count line ''=>'' = 1 \<and> py_split (py_strip line) '' => '' = [left, right]
        \<and> \<not> py_in '' ('' left
      \<longrightarrow> parse_ldconfig_line h line = Inl AssertionError)
   \<and> (find_library ld name0 = Some k \<and> \<not> isWin32Windows h \<and> getOS h \<noteq> ''Darwin''
        \<and> \<not> py_in ''/'' k \<and> \<not> isAlpineLinux h
        \<and> executeToolChecked env [''/sbin/ldconfig'', ''-p''] ldconfig_usage None w
             = (Inr output, w')
        \<and> drop 1 (py_splitlines output) = pre @ bad # post
        \<and> (\<forall>l\<in>set pre. \<not> isl (parse_ldconfig_line h l))
        \<and> parse_ldconfig_line h bad = Inl e
      \<longrightarrow> locateDLL h ld env name0 w = (Inl e, w'))"
proof (intro conjI impI)
  assume "py_count line ''=>'' \<noteq> 1"
  then show "parse_ldconfig_line h line = Inl AssertionError"
    by (simp add: parse_ldconfig_line_def)
next
  assume a: "py_count line ''=>'' = 1 \<and> length (py_split (py_strip line) '' => '') \<noteq> 2"
  then have "\<nexists>l r. py_split (py_strip line) '' => '' = [l, r]" by auto
  then have "(case py_split (py_strip line) '' => '' of
                [l, r] \<Rightarrow> f l r | _ \<Rightarrow> Inl ValueError) = Inl ValueError" for f :: "string \<Rightarrow> string \<Rightarrow> error + (string \<times> string)"
    by (auto split: list.splits)
  with a show "parse_ldconfig_line h line = Inl ValueError"
    unfolding parse_ldconfig_line_def by simp
next
  assume "py_count line ''=>'' = 1 \<and> py_split (py_strip line) '' => '' = [left, right]
        \<and> \<not> py_in '' ('' left"
  then show "parse_ldconfig_line h line = Inl AssertionError"
    by (simp add: parse_ldconfig_line_def)
next
  assume a: "find_library ld name0 = Some k \<and> \<not> isWin32Windows h \<and> getOS h \<noteq> ''Darwin''
        \<and> \<not> py_in ''/'' k \<and> \<not> isAlpineLinux h
        \<and> executeToolChecked env [''/sbin/ldconfig'', ''-p''] ldconfig_usage None w
             = (Inr output, w')
        \<and> drop 1 (py_splitlines output) = pre @ bad # post
        \<and> (\<forall>l\<in>set pre. \<not> isl (parse_ldconfig_line h l))
        \<and> parse_ldconfig_line h bad = Inl e"
  then have "build_dll_map h (pre @ bad # post) Map.empty = Inl e"
    by (intro build_dll_map_abort) blast+
  with a show "locateDLL h ld env name0 w = (Inl e, w')"
    by (simp add: locateDLL_def)
qed

theorem locateDLL_ldconfig_malformed_witness:
  "parse_ldconfig_line (posix_host ''Linux'' False) [] = Inl AssertionError
   \<and> parse_ldconfig_line (posix_host ''Linux'' False)
         ([CHR 0x09] @ ''libz.so.1 (libc6)=>/lib/libz.so.1'') = Inl ValueError
   \<and> parse_ldconfig_line (posix_host ''Linux'' False)
         ([CHR 0x09] @ ''libz.so.1 => /lib/libz.so.1'') = Inl AssertionError
   \<and> locateDLL (posix_host ''Linux'' False) bare_loader
         (std_env (printing_tool ldconfig_output_unflagged [])) ''libm.so.6'' world0
       = (Inl AssertionError, world0\<lparr>invoked := [[''/sbin/ldconfig'', ''-p'']]\<rparr>)"
proof -
  let ?h = "posix_host ''Linux'' False"
  let ?unspaced = "[CHR 0x09] @ ''libz.so.1 (libc6)=>/lib/libz.so.1''"
  let ?unflagged = "[CHR 0x09] @ ''libz.so.1 => /lib/libz.so.1''"
  let ?good = "[CHR 0x09] @ ''libm.so.6 (libc6,x86-64) => /lib/x86_64-linux-gnu/libm.so.6''"
  let ?w = "world0\<lparr>invoked := [[''/sbin/ldconfig'', ''-p'']]\<rparr>"
  have c1: "py_count [] ''=>'' \<noteq> 1" by code_simp
  have c2: "py_count ?unspaced ''=>'' = 1"
    "length (py_split (py_strip ?unspaced) '' => '') \<noteq> 2" by code_simp+
  have c3: "py_count ?unflagged ''=>'' = 1"
    "py_split (py_strip ?unflagged) '' => '' = [''libz.so.1'', ''/lib/libz.so.1'']"
    "\<not> py_in '' ('' ''libz.so.1''" by code_simp+
  have b: "find_library bare_loader ''libm.so.6'' = Some ''libm.so.6''"
    "\<not> isWin32Windows ?h" "getOS ?h \<noteq> ''Darwin''" "\<not> isAlpineLinux ?h"
    by (simp_all add: bare_loader_def posix_host_def)
  have s: "\<not> py_in ''/'' ''libm.so.6''" by code_simp
  have e: "executeToolChecked (std_env (printing_tool ldconfig_output_unflagged []))
      [''/sbin/ldconfig'', ''-p''] ldconfig_usage None world0
      = (Inr ldconfig_output_unflagged, ?w)"
    by (simp add: std_env_def executeToolChecked_model_def printing_tool_def world0_def)
  have d: "drop 1 (py_splitlines ldconfig_output_unflagged) = [?good] @ ?unflagged # []"
    by code_simp
  have g: "\<forall>l\<in>set [?good]. \<not> isl (parse_ldconfig_line ?h l)" by code_simp
  have t1: "parse_ldconfig_line ?h [] = Inl AssertionError"
    using locateDLL_ldconfig_malformed [where line = "[]" and h = ?h, THEN conjunct1] c1
    by simp
  have t2: "parse_ldconfig_line ?h ?unspaced = Inl ValueError"
    using locateDLL_ldconfig_malformed [where line = ?unspaced and h = ?h,
        THEN conjunct2, THEN conjunct1] c2
    by simp
  have t3: "parse_ldconfig_line ?h ?unflagged = Inl AssertionError"
    using locateDLL_ldconfig_malformed [where line = ?unflagged and h = ?h
        and left = "''libz.so.1''" and right = "''/lib/libz.so.1''",
        THEN conjunct2, THEN conjunct2, THEN conjunct1] c3
    by simp
  have t4: "locateDLL ?h bare_loader (std_env (printing_tool ldconfig_output_unflagged []))
      ''libm.so.6'' world0 = (Inl AssertionError, ?w)"
    using locateDLL_ldconfig_malformed [of _ ?h _ _ bare_loader "''libm.so.6''" "''libm.so.6''"
        "std_env (printing_tool ldconfig_output_unflagged [])" world0
        ldconfig_output_unflagged ?w "[?good]" ?unflagged "[]" AssertionError,
        THEN conjunct2, THEN conjunct2, THEN conjunct2]
      b s e d g t3 by simp
  from t1 t2 t3 t4 show ?thesis by (intro conjI)
qed

end
